theory Spec2Isabelle
  imports Complex_Main "HOL-Library.Word" "HOL-Library.Log_Nat" "HOL-Library.Signed_Division"
begin

section \<open>The precompiled XQA kernel registry of decoderXQAImplPrecompiled.cpp\<close>

text \<open>
  A shallow embedding of the classes \<open>XQAKernelList\<close> and \<open>XQAKernelLoader\<close>.
  Function and field names are those of the C++ file. Line numbers refer to
  \<^verbatim>\<open>decoderXQAImplPrecompiled.cpp\<close>.
\<close>

subsection \<open>Machine integers\<close>

text \<open>
  \<open>int\<close>, \<open>int32_t\<close>, \<open>unsigned int\<close> and \<open>uint32_t\<close> are 32-bit words. The two
  synonyms only record which reading the C++ declaration gives the bits: \<open>sint\<close> for
  the signed types, \<open>unat\<close>/\<open>uint\<close> for the unsigned ones. A conversion between the two
  keeps the bits, so it is the identity on words. Addition and multiplication wrap
  around (for the signed types the C++ standard leaves an overflow undefined; the
  theorems below keep their inputs away from it).
\<close>

type_synonym int32 = "32 word"
type_synonym uint32 = "32 word"

text \<open>
  The C++ operators \<open>/\<close> and \<open>%\<close> on \<open>int\<close>: the quotient is truncated towards zero
  and the remainder has the sign of the dividend. A zero divisor is undefined
  behaviour in C++ (a trap on the usual targets); callers of these two functions
  test for it first.
\<close>

definition int_div :: "int32 \<Rightarrow> int32 \<Rightarrow> int32" where
  "int_div a b = word_of_int (sint a sdiv sint b)"

definition int_rem :: "int32 \<Rightarrow> int32 \<Rightarrow> int32" where
  "int_rem a b = word_of_int (sint a smod sint b)"

subsection \<open>Single-precision values\<close>

text \<open>
  A finite \<open>float\<close> is modelled by the rational number it denotes. A binary32 value
  has 24 significant bits; \<open>f32_round\<close> rounds a rational to the nearest such value,
  ties to the even significand. The exponent range (overflow to infinity,
  subnormals) is not modelled: the values that occur below are 32-bit integers
  scaled by one constant.
\<close>

definition floor_log2 :: "rat \<Rightarrow> int" where
  "floor_log2 x =
     (if 1 \<le> x then int (floorlog 2 (nat \<lfloor>x\<rfloor>)) - 1
      else - int (floorlog 2 (nat (\<lceil>1 / x\<rceil> - 1))))"

definition round_half_even :: "rat \<Rightarrow> int" where
  "round_half_even s =
     (let f = \<lfloor>s\<rfloor>; r = s - of_int f
      in if r < 1 / 2 then f
         else if 1 / 2 < r then f + 1
         else if even f then f else f + 1)"

definition f32_round :: "rat \<Rightarrow> rat" where
  "f32_round x =
     (if x = 0 then 0
      else let e = floor_log2 \<bar>x\<bar> - 23
           in sgn x * of_int (round_half_even (\<bar>x\<bar> / 2 powi e)) * 2 powi e)"

text \<open>\<open>static_cast<float>\<close> of an \<open>int\<close>, and the product of two \<open>float\<close>s.\<close>

definition float_of_int32 :: "int32 \<Rightarrow> rat" where
  "float_of_int32 n = f32_round (of_int (sint n))"

definition float_mul :: "rat \<Rightarrow> rat \<Rightarrow> rat" where
  "float_mul a b = f32_round (a * b)"

subsection \<open>Enumerations and constants declared outside this file\<close>

text \<open>
  \<open>XQADataType\<close> (also written \<open>Data_type\<close>) and \<open>XQAKernelType\<close> come from headers
  that are not part of this file; the file names the enumerators
  \<open>DATA_TYPE_FP16\<close>, \<open>DATA_TYPE_E4M3\<close>, \<open>kAMPERE_WARP_SPECIALIZED\<close> and
  \<open>kHOPPER_WARP_SPECIALIZED\<close>.
\<close>

datatype XQADataType = DATA_TYPE_FP16 | DATA_TYPE_BF16 | DATA_TYPE_INT8 | DATA_TYPE_E4M3

datatype XQAKernelType = kAMPERE_WARP_SPECIALIZED | kHOPPER_WARP_SPECIALIZED

text \<open>
  The constants of \<^verbatim>\<open>decoderXQAConstants.h\<close> and \<open>kSM_90\<close> are used but not
  defined in this file, so every function that reads one takes this record.
  \<open>kMinHistoryTokensPerBlock\<close> divides an \<open>int\<close> and is taken to be one;
  \<open>kEnableMinBlockFactor\<close> multiplies a \<open>float\<close> and is taken to be one.
\<close>

record xqa_constants =
  kMinHistoryTokensPerBlock :: int32
  kEnableMinBlockFactor :: rat
  kSM_90 :: uint32

subsection \<open>Request parameters\<close>

text \<open>
  The fields of \<open>XQAParams\<close> that the modelled code reads, and the two
  quantization scales of the request. Pointers are modelled by an optional address,
  \<open>None\<close> for \<open>nullptr\<close>. \<open>QuantMode\<close> is read through its two queries only.
\<close>

type_synonym ptr = "nat option"

record QuantMode =
  hasInt8KvCache :: bool
  hasFp8KvCache :: bool

record XQAParams =
  kv_cache_data_type :: XQADataType
  kv_cache_quant_mode :: QuantMode
  kv_scale_orig_quant :: ptr
  kv_scale_quant_orig :: ptr
  head_size :: int32
  num_q_heads :: int32
  num_kv_heads :: int32
  beam_width :: int32
  batch_size :: uint32
  timestep :: int32
  generation_input_length :: int32
  paged_kv_cache :: bool
  tokens_per_block :: int32
  multi_query_tokens :: bool
  multi_block_mode :: bool
  fp8_out_scale :: ptr

subsection \<open>The kernel list\<close>

text \<open>
  \<open>XQAKernelMetaInfo\<close> is one descriptor of the compiled-in catalog
  \<open>sXqaKernelMetaInfo\<close> (declared in \<^verbatim>\<open>cubin/xqa_kernel_cubin.h\<close>, not part of
  this file). \<open>mCubin\<close> is a pointer to the binary blob: \<open>None\<close> is \<open>nullptr\<close>, and two
  descriptors share a blob when they hold the same address. The descriptor's
  \<open>mSM\<close> and \<open>mDataType\<close> are written \<open>mSM_meta\<close> and \<open>mDataType_meta\<close> here,
  since the kernel list has members of the same names.
\<close>

type_synonym cubin_ptr = nat
type_synonym CUmodule = nat
type_synonym CUfunction = nat

record XQAKernelMetaInfo =
  mDataType_meta :: XQADataType
  mKVDataType :: XQADataType
  mHeadDim :: uint32
  mBeamWidth :: uint32
  mNumQHeadsOverKV :: uint32
  mMTileSize :: uint32
  mTokensPerPage :: uint32
  mPagedKVCache :: bool
  mMultiQueryTokens :: bool
  mSM_meta :: uint32
  mCubin :: "cubin_ptr option"
  mFuncName :: string

text \<open>
  \<open>XQAKernelRuntimeHashKey\<close> is declared outside this file; the three places that
  build one (lines 98, 119 and 214) initialise eight members in this order. Two keys
  are equal when all members are.
\<close>

record XQAKernelRuntimeHashKey =
  kv_data_type :: XQADataType
  key_head_size :: uint32
  beam_size :: uint32
  num_q_heads_per_kv :: uint32
  m_tilesize :: uint32
  tokens_per_page :: uint32
  key_paged_kv_cache :: bool
  key_multi_query_tokens :: bool

record XQAKernelFuncInfo =
  mMetaInfoIndex :: nat
  mSharedMemBytes :: uint32
  mDeviceFunction :: CUfunction
  mKernelType :: XQAKernelType

text \<open>
  The driver calls that \<open>loadXQAKernels\<close> issues through \<open>mDriver\<close>; a
  \<open>cuModuleLoadData\<close> call is recorded with the module it returned (\<open>None\<close> when it
  failed). \<open>mDriverCalls\<close> is a ghost member of the kernel list: the calls issued so
  far, in order.
\<close>

datatype driver_call =
    ModuleLoadData cubin_ptr "CUmodule option"
  | ModuleGetFunction CUmodule string
  | GetGlobalVar CUmodule string
  | FuncSetAttribute CUfunction uint32

text \<open>
  The two \<open>std::unordered_map\<close> members are association lists, read with \<open>map_of\<close>;
  \<open>find\<close> is \<open>map_of\<close>, \<open>empty()\<close> is \<open>= []\<close>.
\<close>

record XQAKernelList =
  mDataType :: XQADataType
  mKernelMeta :: "XQAKernelMetaInfo list"
  mSM :: uint32
  mModules :: "(cubin_ptr \<times> CUmodule) list"
  mForceXQA :: bool
  mFunctions :: "(XQAKernelRuntimeHashKey \<times> XQAKernelFuncInfo) list"
  mDriverCalls :: "driver_call list"

subsection \<open>mayHavePerfGain (lines 127-144)\<close>

definition mayHavePerfGain :: "xqa_constants \<Rightarrow> XQAKernelList \<Rightarrow> XQAParams \<Rightarrow> int32 \<Rightarrow> bool" where
  "mayHavePerfGain c this xqaParams multiprocessor_count =
     (if mForceXQA this \<or> multi_query_tokens xqaParams then True
      else
        let num_kv_heads = num_kv_heads xqaParams;
            batch_size = batch_size xqaParams;
            multi_block_count =
              (if multi_block_mode xqaParams
               then let history_length = timestep xqaParams
                    in int_div history_length (kMinHistoryTokensPerBlock c)
               else 1);
            block_count = num_kv_heads * batch_size * multi_block_count
        in float_of_int32 multiprocessor_count
             \<le> float_mul (float_of_int32 block_count) (kEnableMinBlockFactor c))"

text \<open>
  The heuristic as the specification words it, in exact arithmetic: the split factor
  is \<open>max(1, historyLength / minHistoryTokensPerBlock)\<close> in multi-block mode.
\<close>

definition spec_workBlocks :: "xqa_constants \<Rightarrow> XQAParams \<Rightarrow> int" where
  "spec_workBlocks c p =
     sint (num_kv_heads p) * sint (batch_size p) *
       (if multi_block_mode p
        then max 1 (sint (timestep p) sdiv sint (kMinHistoryTokensPerBlock c))
        else 1)"

definition spec_mayHavePerfGain :: "xqa_constants \<Rightarrow> bool \<Rightarrow> XQAParams \<Rightarrow> int \<Rightarrow> bool" where
  "spec_mayHavePerfGain c forceXQA p parallelismWidth =
     (forceXQA \<or> multi_query_tokens p
      \<or> of_int parallelismWidth \<le> of_int (spec_workBlocks c p) * kEnableMinBlockFactor c)"

subsection \<open>Errors\<close>

text \<open>
  Every way the modelled functions leave early is a value:
  \<^item> \<open>CheckFailed msg\<close>: a \<open>TLLM_CHECK\<close> or \<open>TLLM_CHECK_WITH_INFO\<close> whose condition is
    false (a thrown exception), with the message or the condition;
  \<^item> \<open>DriverError call\<close>: \<open>cuErrCheck\<close> on a driver call that did not succeed;
  \<^item> \<open>BadOptionalAccess\<close>: \<open>value()\<close> on an empty \<open>std::optional\<close>;
  \<^item> \<open>UndefinedDivision\<close>: an \<open>int\<close> division or remainder that C++ leaves undefined
    (zero divisor, or \<open>INT_MIN\<close> by \<open>-1\<close>);
  \<^item> \<open>OutOfBounds i\<close>: an array element outside the array (undefined in C++);
  \<^item> \<open>NullDereference\<close>: \<open>*p\<close> for a null \<open>p\<close> (undefined in C++);
  \<^item> \<open>AssertionFailed\<close>: an \<open>assert\<close> whose condition is false.
\<close>

datatype error =
    CheckFailed string
  | DriverError driver_call
  | BadOptionalAccess
  | UndefinedDivision
  | OutOfBounds int
  | NullDereference
  | AssertionFailed

definition int_div_undefined :: "int32 \<Rightarrow> int32 \<Rightarrow> bool" where
  "int_div_undefined a b \<longleftrightarrow> b = 0 \<or> (sint a = - (2 ^ 31) \<and> sint b = - 1)"

subsection \<open>loadXQAKernels (lines 56-104)\<close>

text \<open>
  The driver is a parameter: what each call returns for its arguments, \<open>None\<close> (or
  \<open>False\<close>) when the driver reports an error. \<open>getGlobalVar\<close> is declared outside
  this file; for a variable that is not required it returns \<open>None\<close> when the module
  has no such symbol.
\<close>

record driver =
  cuModuleLoadData :: "cubin_ptr \<Rightarrow> CUmodule option"
  cuModuleGetFunction :: "CUmodule \<Rightarrow> string \<Rightarrow> CUfunction option"
  getGlobalVar_uint32 :: "CUmodule \<Rightarrow> string \<Rightarrow> uint32 option"
  getGlobalVar_kernelType :: "CUmodule \<Rightarrow> string \<Rightarrow> XQAKernelType option"
  cuFuncSetAttribute :: "CUfunction \<Rightarrow> uint32 \<Rightarrow> bool"

definition logCall :: "driver_call \<Rightarrow> XQAKernelList \<Rightarrow> XQAKernelList" where
  "logCall call this = this\<lparr>mDriverCalls := mDriverCalls this @ [call]\<rparr>"

text \<open>\<open>std::unordered_map::insert\<close>: an entry whose key is present already is kept.\<close>

definition map_insert :: "'k \<Rightarrow> 'v \<Rightarrow> ('k \<times> 'v) list \<Rightarrow> ('k \<times> 'v) list" where
  "map_insert k v m = (case map_of m k of None \<Rightarrow> (k, v) # m | Some _ \<Rightarrow> m)"

text \<open>
  A function that throws still leaves the members it has changed, so each step
  returns the kernel list with its outcome.
\<close>

text \<open>Lines 72-82: the module of a blob, loaded on first use.\<close>

definition findOrLoadModule ::
  "driver \<Rightarrow> cubin_ptr \<Rightarrow> XQAKernelList \<Rightarrow> (error + CUmodule) \<times> XQAKernelList" where
  "findOrLoadModule d cubin this =
     (case map_of (mModules this) cubin of
        Some hmod \<Rightarrow> (Inr hmod, this)
      | None \<Rightarrow>
          let this1 = logCall (ModuleLoadData cubin (cuModuleLoadData d cubin)) this
          in (case cuModuleLoadData d cubin of
                None \<Rightarrow> (Inl (DriverError (ModuleLoadData cubin None)), this1)
              | Some hmod \<Rightarrow>
                  (Inr hmod, this1\<lparr>mModules := map_insert cubin hmod (mModules this1)\<rparr>)))"

text \<open>Lines 91-97: the shared-memory attribute.\<close>

definition setMaxDynamicSharedMem ::
  "driver \<Rightarrow> XQAKernelFuncInfo \<Rightarrow> XQAKernelList \<Rightarrow> error option \<times> XQAKernelList" where
  "setMaxDynamicSharedMem d funcInfo this =
     (if 46 * 1024 \<le> mSharedMemBytes funcInfo
      then let call = FuncSetAttribute (mDeviceFunction funcInfo) (mSharedMemBytes funcInfo);
               this1 = logCall call this
           in if cuFuncSetAttribute d (mDeviceFunction funcInfo) (mSharedMemBytes funcInfo)
              then (None, this1) else (Some (DriverError call), this1)
      else (None, this))"

text \<open>Lines 98-100: the key a descriptor is stored under.\<close>

definition meta_hash_key :: "XQAKernelMetaInfo \<Rightarrow> XQAKernelRuntimeHashKey" where
  "meta_hash_key kernelMeta =
     \<lparr>kv_data_type = mKVDataType kernelMeta, key_head_size = mHeadDim kernelMeta,
      beam_size = mBeamWidth kernelMeta, num_q_heads_per_kv = mNumQHeadsOverKV kernelMeta,
      m_tilesize = mMTileSize kernelMeta, tokens_per_page = mTokensPerPage kernelMeta,
      key_paged_kv_cache = mPagedKVCache kernelMeta,
      key_multi_query_tokens = mMultiQueryTokens kernelMeta\<rparr>"

text \<open>Lines 64-102: the body of the loop, for descriptor \<open>i\<close>.\<close>

definition loadKernel :: "driver \<Rightarrow> nat \<Rightarrow> XQAKernelList \<Rightarrow> error option \<times> XQAKernelList" where
  "loadKernel d i this =
     (let kernelMeta = mKernelMeta this ! i in
      if mSM_meta kernelMeta \<noteq> mSM this \<or> mDataType_meta kernelMeta \<noteq> mDataType this
      then (None, this)
      else case mCubin kernelMeta of
        None \<Rightarrow> (None, this)
      | Some cubin \<Rightarrow>
         (case findOrLoadModule d cubin this of
            (Inl e, this1) \<Rightarrow> (Some e, this1)
          | (Inr hmod, this1) \<Rightarrow>
             let getFunction = ModuleGetFunction hmod (mFuncName kernelMeta);
                 this2 = logCall getFunction this1
             in (case cuModuleGetFunction d hmod (mFuncName kernelMeta) of
                   None \<Rightarrow> (Some (DriverError getFunction), this2)
                 | Some f \<Rightarrow>
                    let this3 = logCall (GetGlobalVar hmod ''smemSize'') this2
                    in (case getGlobalVar_uint32 d hmod ''smemSize'' of
                          None \<Rightarrow> (Some (DriverError (GetGlobalVar hmod ''smemSize'')), this3)
                        | Some smem \<Rightarrow>
                           let this4 = logCall (GetGlobalVar hmod ''kernelType'') this3;
                               kernelType =
                                 (case getGlobalVar_kernelType d hmod ''kernelType'' of
                                    None \<Rightarrow> kAMPERE_WARP_SPECIALIZED
                                  | Some t \<Rightarrow> t);
                               funcInfo =
                                 \<lparr>mMetaInfoIndex = i, mSharedMemBytes = smem,
                                  mDeviceFunction = f, mKernelType = kernelType\<rparr>
                           in (case setMaxDynamicSharedMem d funcInfo this4 of
                                 (Some e, this5) \<Rightarrow> (Some e, this5)
                               | (None, this5) \<Rightarrow>
                                   (None, this5\<lparr>mFunctions :=
                                      map_insert (meta_hash_key kernelMeta) funcInfo
                                        (mFunctions this5)\<rparr>))))))"

text \<open>The loop of line 62 over the given indices; it stops at the first error.\<close>

fun loadKernels :: "driver \<Rightarrow> nat list \<Rightarrow> XQAKernelList \<Rightarrow> error option \<times> XQAKernelList" where
  "loadKernels d [] this = (None, this)"
| "loadKernels d (i # is) this =
     (case loadKernel d i this of
        (Some e, this1) \<Rightarrow> (Some e, this1)
      | (None, this1) \<Rightarrow> loadKernels d is this1)"

definition loadXQAKernels :: "driver \<Rightarrow> XQAKernelList \<Rightarrow> error option \<times> XQAKernelList" where
  "loadXQAKernels d this =
     (if mFunctions this \<noteq> [] then (None, this)
      else loadKernels d [0 ..< length (mKernelMeta this)] this)"

text \<open>
  The constructor (lines 46-54): no module and no function yet. \<open>forceXQA\<close> is what
  \<open>forceXQAKernels()\<close> returns.
\<close>

definition XQAKernelList_new :: "XQAKernelMetaInfo list \<Rightarrow> bool \<Rightarrow> XQADataType \<Rightarrow> uint32 \<Rightarrow> XQAKernelList" where
  "XQAKernelList_new catalog forceXQA type sm =
     \<lparr>mDataType = type, mKernelMeta = catalog, mSM = sm, mModules = [],
      mForceXQA = forceXQA, mFunctions = [], mDriverCalls = []\<rparr>"

text \<open>
  The kernel lists that one instance can become: the constructed one, and what any
  number of \<open>loadXQAKernels\<close> calls make of it, whether they throw or not.
\<close>

inductive instance_state :: "driver \<Rightarrow> XQAKernelList \<Rightarrow> XQAKernelList \<Rightarrow> bool" for d this0 where
  constructed: "instance_state d this0 this0"
| loaded: "instance_state d this0 this \<Longrightarrow> instance_state d this0 (snd (loadXQAKernels d this))"

text \<open>The blobs that the driver has loaded as a module, one entry per load, in order.\<close>

fun loadedBlobs :: "driver_call list \<Rightarrow> cubin_ptr list" where
  "loadedBlobs [] = []"
| "loadedBlobs (ModuleLoadData cubin (Some hmod) # calls) = cubin # loadedBlobs calls"
| "loadedBlobs (_ # calls) = loadedBlobs calls"

subsection \<open>supportConfig (lines 106-125)\<close>

text \<open>Lines 112-122: the key, once the head counts have passed the check.\<close>

definition supportConfig_hash_key :: "XQAParams \<Rightarrow> XQAKernelRuntimeHashKey" where
  "supportConfig_hash_key xqaParams =
     (let head_size = head_size xqaParams;
          num_q_heads_over_kv = int_div (num_q_heads xqaParams) (num_kv_heads xqaParams);
          beam_width = beam_width xqaParams;
          kernel_num_q_heads_over_kv =
            (if multi_query_tokens xqaParams then 0 else num_q_heads_over_kv);
          m_tilesize = (if multi_query_tokens xqaParams then 16 else num_q_heads_over_kv)
      in \<lparr>kv_data_type = kv_cache_data_type xqaParams, key_head_size = head_size,
          beam_size = beam_width, num_q_heads_per_kv = kernel_num_q_heads_over_kv,
          m_tilesize = m_tilesize,
          tokens_per_page =
            (if paged_kv_cache xqaParams then tokens_per_block xqaParams else 0),
          key_paged_kv_cache = paged_kv_cache xqaParams,
          key_multi_query_tokens = multi_query_tokens xqaParams\<rparr>)"

definition supportConfig :: "XQAKernelList \<Rightarrow> XQAParams \<Rightarrow> error + bool" where
  "supportConfig this xqaParams =
     (let num_q_heads = num_q_heads xqaParams;
          num_kv_heads = num_kv_heads xqaParams
      in if int_div_undefined num_q_heads num_kv_heads then Inl UndefinedDivision
         else if int_rem num_q_heads num_kv_heads \<noteq> 0
         then Inl (CheckFailed ''numQHeads should be multiple of numKVHeads.'')
         else let findIter = map_of (mFunctions this) (supportConfig_hash_key xqaParams)
              in Inr (findIter \<noteq> None))"

subsection \<open>run (lines 146-306)\<close>

text \<open>
  What \<open>run\<close> takes from outside this file: \<open>computeMultiBlockCount\<close>, \<open>log2\<close> and
  \<open>divUp\<close> are functions of other headers, and \<open>launchParams\<close> is what
  \<open>buildXQALaunchParams\<close> has filled in, of which only \<open>beamSearchParams\<close> (a
  \<open>std::optional\<close>) is read as a value. The preprocessing of lines 171-205 and the
  output conversion run on the device; of them the model keeps \<open>cache_type\<close>
  (lines 158-160, handed to the preprocessing) and whether the conversion runs.
\<close>

record xqa_externals =
  computeMultiBlockCount :: "XQAParams \<Rightarrow> uint32 \<Rightarrow> int32 \<Rightarrow> int32"
  log2_uint :: "uint32 \<Rightarrow> uint32"
  divUp :: "uint32 \<Rightarrow> uint32 \<Rightarrow> uint32"

record XQALaunchParam =
  beamSearchParams :: "nat option"

text \<open>
  One entry of the \<open>void*\<close> array handed to \<open>cuLaunchKernel\<close>: which variable the
  entry points to. A local of \<open>run\<close> whose value is fixed there carries the value
  (\<open>qSeqLen\<close>, \<open>log2HeadGrpSize\<close>, \<open>kvCacheQuantOrig\<close>); the others are members of
  \<open>launchParams\<close> or locals holding pointers. \<open>Uninitialized\<close> is an element of the
  array that was never written.
\<close>

datatype kernel_param =
    Ptr_qSeqLen uint32
  | Ptr_num_k_heads
  | Ptr_log2HeadGrpSize uint32
  | Ptr_output
  | Ptr_xqa_q_input_ptr
  | Ptr_maskPtr
  | Ptr_kvCacheParams
  | Ptr_beamSearchParams
  | Ptr_batch_size
  | Ptr_kvCacheQuantOrig rat
  | Ptr_kv_scale_quant_orig
  | Ptr_tensorMap
  | Ptr_semaphores
  | Ptr_scratch
  | Nullptr
  | Uninitialized

datatype KvCacheDataType = BASE | INT8 | FP8

record kernel_launch =
  cache_type :: KvCacheDataType
  func :: CUfunction
  gridDimX :: uint32
  gridDimY :: uint32
  gridDimZ :: uint32
  blockDimX :: uint32
  blockDimY :: uint32
  blockDimZ :: uint32
  sharedMemBytes :: uint32
  launchKernelParams :: "kernel_param list"
  scratchZeroed :: bool
  outputConversion :: bool

text \<open>Lines 158-160.\<close>

definition kv_cache_type :: "XQAParams \<Rightarrow> KvCacheDataType" where
  "kv_cache_type xqaParams =
     (if hasInt8KvCache (kv_cache_quant_mode xqaParams) then INT8
      else if hasFp8KvCache (kv_cache_quant_mode xqaParams) then FP8 else BASE)"

text \<open>Lines 207-217: the key of the lookup.\<close>

definition run_hash_key :: "XQAParams \<Rightarrow> XQAKernelRuntimeHashKey" where
  "run_hash_key xqaParams =
     (let head_size = head_size xqaParams;
          num_q_heads_over_kv = int_div (num_q_heads xqaParams) (num_kv_heads xqaParams);
          beam_width = beam_width xqaParams;
          qSeqLen = generation_input_length xqaParams;
          mTileSize = (if qSeqLen \<le> 16 then 16 else 32);
          kernel_num_q_heads_over_kv =
            (if multi_query_tokens xqaParams then 0 else num_q_heads_over_kv);
          kernel_m_tilesize =
            (if multi_query_tokens xqaParams then mTileSize else num_q_heads_over_kv)
      in \<lparr>kv_data_type = kv_cache_data_type xqaParams, key_head_size = head_size,
          beam_size = beam_width, num_q_heads_per_kv = kernel_num_q_heads_over_kv,
          m_tilesize = kernel_m_tilesize,
          tokens_per_page =
            (if paged_kv_cache xqaParams then tokens_per_block xqaParams else 0),
          key_paged_kv_cache = paged_kv_cache xqaParams,
          key_multi_query_tokens = multi_query_tokens xqaParams\<rparr>)"

text \<open>
  Lines 262-266: \<open>appendParam\<close>, on the pair of \<open>idxNextParam\<close> and the array
  \<open>kernelParams\<close>. \<open>appendParams\<close> is a sequence of such calls.
\<close>

definition appendParam ::
  "nat \<Rightarrow> kernel_param \<Rightarrow> nat \<times> kernel_param list \<Rightarrow> error + nat \<times> kernel_param list" where
  "appendParam maxNbKernelParams p st =
     (case st of (idxNextParam, kernelParams) \<Rightarrow>
        if idxNextParam < maxNbKernelParams
        then Inr (idxNextParam + 1, kernelParams[idxNextParam := p])
        else Inl (CheckFailed ''idxNextParam < maxNbKernelParams''))"

fun appendParams ::
  "nat \<Rightarrow> kernel_param list \<Rightarrow> nat \<times> kernel_param list \<Rightarrow> error + nat \<times> kernel_param list" where
  "appendParams maxNbKernelParams [] st = Inr st"
| "appendParams maxNbKernelParams (p # ps) st =
     (case appendParam maxNbKernelParams p st of
        Inl e \<Rightarrow> Inl e
      | Inr st1 \<Rightarrow> appendParams maxNbKernelParams ps st1)"

definition kMAX_NB_KERNEL_PARAMS :: nat where
  "kMAX_NB_KERNEL_PARAMS = 11"

text \<open>Lines 254-285: the argument array of a single-token launch.\<close>

definition buildKernelParams ::
  "bool \<Rightarrow> XQAParams \<Rightarrow> XQALaunchParam \<Rightarrow> error + nat \<times> kernel_param list" where
  "buildKernelParams isGmmaKernel xqaParams launchParams =
     (let maxNbKernelParams = (if isGmmaKernel then 11 else 10);
          st0 = (0, replicate kMAX_NB_KERNEL_PARAMS Uninitialized)
      in case appendParams maxNbKernelParams
                [Ptr_num_k_heads, Ptr_output, Ptr_xqa_q_input_ptr, Ptr_kvCacheParams] st0 of
           Inl e \<Rightarrow> Inl e
         | Inr st1 \<Rightarrow>
            (case (if 1 <s beam_width xqaParams
                   then (case beamSearchParams launchParams of
                           None \<Rightarrow> Inl BadOptionalAccess
                         | Some _ \<Rightarrow> appendParam maxNbKernelParams Ptr_beamSearchParams st1)
                   else Inr st1) of
               Inl e \<Rightarrow> Inl e
             | Inr st2 \<Rightarrow>
                (case appendParams maxNbKernelParams
                        [Ptr_batch_size, Ptr_kv_scale_quant_orig] st2 of
                   Inl e \<Rightarrow> Inl e
                 | Inr st3 \<Rightarrow>
                    (case (if isGmmaKernel
                           then appendParam maxNbKernelParams Ptr_tensorMap st3
                           else Inr st3) of
                       Inl e \<Rightarrow> Inl e
                     | Inr st4 \<Rightarrow>
                        (case appendParams maxNbKernelParams
                                [Ptr_semaphores, Ptr_scratch] st4 of
                           Inl e \<Rightarrow> Inl e
                         | Inr (idxNextParam, kernelParams) \<Rightarrow>
                             Inr (idxNextParam, kernelParams[idxNextParam := Nullptr]))))))"

text \<open>Lines 227-251: the launch in multi-token mode.\<close>

definition run_multi_query_tokens ::
  "xqa_externals \<Rightarrow> XQAKernelFuncInfo \<Rightarrow> XQAParams \<Rightarrow> int32 \<Rightarrow> kernel_launch" where
  "run_multi_query_tokens ext info xqaParams multiprocessor_count =
     (let num_q_heads_over_kv = int_div (num_q_heads xqaParams) (num_kv_heads xqaParams);
          qSeqLen = generation_input_length xqaParams;
          mTileSize = (if qSeqLen \<le> 16 then 16 else 32);
          log2HeadGrpSize = log2_uint ext num_q_heads_over_kv;
          nbTokenBlocksPerGrp =
            divUp ext (push_bit (unat log2HeadGrpSize) qSeqLen) mTileSize;
          kvCacheQuantOrig = 1;
          kernelParams =
            [Ptr_qSeqLen qSeqLen, Ptr_num_k_heads, Ptr_log2HeadGrpSize log2HeadGrpSize,
             Ptr_output, Ptr_xqa_q_input_ptr, Ptr_maskPtr, Ptr_kvCacheParams,
             Ptr_batch_size, Ptr_kvCacheQuantOrig kvCacheQuantOrig, Ptr_scratch];
          multi_block =
            (if multi_block_mode xqaParams
             then computeMultiBlockCount ext xqaParams (batch_size xqaParams)
                    multiprocessor_count
             else 1)
      in \<lparr>cache_type = kv_cache_type xqaParams,
          func = mDeviceFunction info, gridDimX = multi_block,
          gridDimY = num_kv_heads xqaParams * nbTokenBlocksPerGrp,
          gridDimZ = batch_size xqaParams,
          blockDimX = 128, blockDimY = 1, blockDimZ = 2,
          sharedMemBytes = mSharedMemBytes info, launchKernelParams = kernelParams,
          scratchZeroed = multi_block_mode xqaParams,
          outputConversion = (fp8_out_scale xqaParams \<noteq> None)\<rparr>)"

text \<open>Lines 252-294: the launch in single-token mode.\<close>

definition run_single_query_token ::
  "xqa_constants \<Rightarrow> xqa_externals \<Rightarrow> XQAKernelList \<Rightarrow> XQAKernelFuncInfo \<Rightarrow> XQAParams
     \<Rightarrow> XQALaunchParam \<Rightarrow> int32 \<Rightarrow> error + kernel_launch" where
  "run_single_query_token c ext this info xqaParams launchParams multiprocessor_count =
     (let isGmmaKernel = (mKernelType info = kHOPPER_WARP_SPECIALIZED)
      in if isGmmaKernel \<noteq>
              (mSM this = kSM_90 c \<and> kv_cache_data_type xqaParams = DATA_TYPE_E4M3
               \<and> beam_width xqaParams = 1)
         then Inl (CheckFailed
                ''isGmmaKernel == (mSM == kSM_90 && xqaParams.kv_cache_data_type == XQADataType::DATA_TYPE_E4M3 && xqaParams.beam_width == 1)'')
         else case buildKernelParams isGmmaKernel xqaParams launchParams of
                Inl e \<Rightarrow> Inl e
              | Inr (idxNextParam, kernelParams) \<Rightarrow>
                 let multi_block =
                       (if multi_block_mode xqaParams
                        then computeMultiBlockCount ext xqaParams (batch_size xqaParams)
                               multiprocessor_count
                        else 1)
                 in Inr \<lparr>cache_type = kv_cache_type xqaParams,
                         func = mDeviceFunction info, gridDimX = multi_block,
                         gridDimY = num_kv_heads xqaParams,
                         gridDimZ = batch_size xqaParams,
                         blockDimX = 128, blockDimY = 1,
                         blockDimZ = (if isGmmaKernel then 3 else 2),
                         sharedMemBytes = mSharedMemBytes info,
                         launchKernelParams = kernelParams,
                         scratchZeroed = False,
                         outputConversion = (fp8_out_scale xqaParams \<noteq> None)\<rparr>)"

definition run ::
  "xqa_constants \<Rightarrow> xqa_externals \<Rightarrow> XQAKernelList \<Rightarrow> XQAParams \<Rightarrow> XQALaunchParam
     \<Rightarrow> int32 \<Rightarrow> error + kernel_launch" where
  "run c ext this xqaParams launchParams multiprocessor_count =
     (let num_q_heads = num_q_heads xqaParams;
          num_kv_heads = num_kv_heads xqaParams
      in if int_div_undefined num_q_heads num_kv_heads then Inl UndefinedDivision
         else if int_rem num_q_heads num_kv_heads \<noteq> 0
         then Inl (CheckFailed ''numQHeads should be multiple of numKVHeads.'')
         else case map_of (mFunctions this) (run_hash_key xqaParams) of
                None \<Rightarrow> Inl (CheckFailed ''XQAKernelFunc not found.'')
              | Some info \<Rightarrow>
                  if multi_query_tokens xqaParams
                  then Inr (run_multi_query_tokens ext info xqaParams multiprocessor_count)
                  else run_single_query_token c ext this info xqaParams launchParams
                         multiprocessor_count)"

subsection \<open>XQAKernelLoader::Get (lines 373-384)\<close>

text \<open>
  \<open>s_factory\<close> is a static array of 32 pointers, all null at first; an element is
  \<open>None\<close> (null) or the loader it points to. Reading or writing
  \<open>s_factory[device_id]\<close> outside the array is undefined in C++. \<open>Get_guard\<close> is the
  condition of the \<open>assert\<close> of line 379.
\<close>

record XQAKernelLoader =
  mKernels :: "((XQADataType \<times> uint32) \<times> XQAKernelList) list"

definition XQAKernelLoader_new :: XQAKernelLoader where
  "XQAKernelLoader_new = \<lparr>mKernels = []\<rparr>"

definition s_factory_init :: "XQAKernelLoader option list" where
  "s_factory_init = replicate 32 None"

definition s_factory_in_bounds :: "XQAKernelLoader option list \<Rightarrow> int \<Rightarrow> bool" where
  "s_factory_in_bounds s_factory device_id \<longleftrightarrow> 0 \<le> device_id \<and> device_id < int (length s_factory)"

definition s_factory_read :: "XQAKernelLoader option list \<Rightarrow> int \<Rightarrow> error + XQAKernelLoader option" where
  "s_factory_read s_factory device_id =
     (if s_factory_in_bounds s_factory device_id then Inr (s_factory ! nat device_id)
      else Inl (OutOfBounds device_id))"

definition s_factory_write ::
  "XQAKernelLoader option list \<Rightarrow> int \<Rightarrow> XQAKernelLoader option \<Rightarrow> error + XQAKernelLoader option list" where
  "s_factory_write s_factory device_id v =
     (if s_factory_in_bounds s_factory device_id then Inr (s_factory[nat device_id := v])
      else Inl (OutOfBounds device_id))"

definition Get_guard :: "int \<Rightarrow> bool" where
  "Get_guard device_id \<longleftrightarrow> device_id \<le> 32"

definition Get :: "int \<Rightarrow> XQAKernelLoader option list \<Rightarrow> error + XQAKernelLoader \<times> XQAKernelLoader option list" where
  "Get device_id s_factory =
     (case s_factory_read s_factory device_id of
        Inl e \<Rightarrow> Inl e
      | Inr (Some loader) \<Rightarrow> Inr (loader, s_factory)
      | Inr None \<Rightarrow>
          if \<not> Get_guard device_id then Inl AssertionFailed
          else (case s_factory_write s_factory device_id (Some XQAKernelLoader_new) of
                  Inl e \<Rightarrow> Inl e
                | Inr s_factory1 \<Rightarrow>
                   (case s_factory_read s_factory1 device_id of
                      Inl e \<Rightarrow> Inl e
                    | Inr None \<Rightarrow> Inl NullDereference
                    | Inr (Some loader) \<Rightarrow> Inr (loader, s_factory1))))"

subsection \<open>Example data\<close>

text \<open>
  A small catalog for one architecture (SM 80, 16-bit float): descriptors 0 and 2
  share the blob at address 100, descriptor 1 has no blob, descriptor 3 belongs to
  another architecture, and descriptor 4 has a blob of its own whose kernel needs
  exactly 46 KiB of shared memory.
\<close>

definition ex_constants :: xqa_constants where
  "ex_constants = \<lparr>kMinHistoryTokensPerBlock = 128, kEnableMinBlockFactor = 4, kSM_90 = 90\<rparr>"

definition ex_meta :: "uint32 \<Rightarrow> uint32 \<Rightarrow> bool \<Rightarrow> cubin_ptr option \<Rightarrow> string \<Rightarrow> uint32 \<Rightarrow> XQAKernelMetaInfo" where
  "ex_meta ratio tile multi cubin name sm =
     \<lparr>mDataType_meta = DATA_TYPE_FP16, mKVDataType = DATA_TYPE_FP16, mHeadDim = 128,
      mBeamWidth = 1, mNumQHeadsOverKV = ratio, mMTileSize = tile, mTokensPerPage = 0,
      mPagedKVCache = False, mMultiQueryTokens = multi, mSM_meta = sm,
      mCubin = cubin, mFuncName = name\<rparr>"

definition ex_catalog :: "XQAKernelMetaInfo list" where
  "ex_catalog =
     [ex_meta 8 8 False (Some 100) ''kernel_mha'' 80,
      ex_meta 4 4 False None ''kernel_jit'' 80,
      ex_meta 0 16 True (Some 100) ''kernel_spec'' 80,
      ex_meta 8 8 False (Some 300) ''kernel_sm90'' 90,
      ex_meta 2 2 False (Some 200) ''kernel_big'' 80]"

definition ex_driver :: driver where
  "ex_driver =
     \<lparr>cuModuleLoadData = (\<lambda>cubin. if cubin = 100 then Some 1 else if cubin = 200 then Some 2 else None),
      cuModuleGetFunction =
        (\<lambda>hmod name. if name = ''kernel_mha'' then Some 11
                      else if name = ''kernel_spec'' then Some 12
                      else if name = ''kernel_big'' then Some 13 else None),
      getGlobalVar_uint32 = (\<lambda>hmod name. if hmod = 1 then Some 20000 else Some 47104),
      getGlobalVar_kernelType = (\<lambda>hmod name. None),
      cuFuncSetAttribute = (\<lambda>f bytes. True)\<rparr>"

definition ex_list :: XQAKernelList where
  "ex_list = XQAKernelList_new ex_catalog False DATA_TYPE_FP16 80"

definition ex_externals :: xqa_externals where
  "ex_externals =
     \<lparr>computeMultiBlockCount = (\<lambda>p b m. 1), log2_uint = (\<lambda>x. 3),
      divUp = (\<lambda>a b. word_of_nat ((unat a + unat b - 1) div unat b))\<rparr>"

definition ex_params :: XQAParams where
  "ex_params =
     \<lparr>kv_cache_data_type = DATA_TYPE_FP16,
      kv_cache_quant_mode = \<lparr>hasInt8KvCache = False, hasFp8KvCache = False\<rparr>,
      kv_scale_orig_quant = None, kv_scale_quant_orig = None,
      head_size = 128, num_q_heads = 32, num_kv_heads = 4, beam_width = 1,
      batch_size = 4, timestep = 1000, generation_input_length = 1,
      paged_kv_cache = False, tokens_per_block = 0, multi_query_tokens = False,
      multi_block_mode = True, fp8_out_scale = None\<rparr>"

definition ex_launchParams :: XQALaunchParam where
  "ex_launchParams = \<lparr>beamSearchParams = None\<rparr>"

subsection \<open>Invariants of the kernel list\<close>

text \<open>
  \<open>blobs_inv\<close>: no blob was loaded twice, and every loaded blob has its module in
  \<open>mModules\<close>. \<open>functions_inv\<close>: every function refers to a descriptor of the
  catalog that has a blob. \<open>attribute_inv\<close>: every \<open>cuFuncSetAttribute\<close> call asked for
  at least 46 KiB.
\<close>

definition blobs_inv :: "XQAKernelList \<Rightarrow> bool" where
  "blobs_inv this \<longleftrightarrow>
     distinct (loadedBlobs (mDriverCalls this))
     \<and> set (loadedBlobs (mDriverCalls this)) \<subseteq> fst ` set (mModules this)"

definition functions_inv :: "XQAKernelList \<Rightarrow> bool" where
  "functions_inv this \<longleftrightarrow>
     (\<forall>(key, info) \<in> set (mFunctions this).
        mMetaInfoIndex info < length (mKernelMeta this)
        \<and> mCubin (mKernelMeta this ! mMetaInfoIndex info) \<noteq> None)"

definition attribute_inv :: "XQAKernelList \<Rightarrow> bool" where
  "attribute_inv this \<longleftrightarrow>
     (\<forall>call \<in> set (mDriverCalls this).
        case call of FuncSetAttribute f bytes \<Rightarrow> 46 * 1024 \<le> bytes | _ \<Rightarrow> True)"

definition list_inv :: "XQAKernelMetaInfo list \<Rightarrow> XQAKernelList \<Rightarrow> bool" where
  "list_inv catalog this \<longleftrightarrow>
     mKernelMeta this = catalog \<and> blobs_inv this \<and> functions_inv this \<and> attribute_inv this"

subsection \<open>Example data, continued\<close>

text \<open>
  The example list after \<open>loadXQAKernels\<close>, and a multi-token request with an
  8-bit-integer KV cache and a dequantization scale.
\<close>

definition ex_loaded :: XQAKernelList where
  "ex_loaded = snd (loadXQAKernels ex_driver ex_list)"

definition ex_params_spec :: XQAParams where
  "ex_params_spec =
     ex_params\<lparr>multi_query_tokens := True, generation_input_length := 5,
       kv_cache_quant_mode := \<lparr>hasInt8KvCache = True, hasFp8KvCache = False\<rparr>,
       kv_scale_quant_orig := Some 4096\<rparr>"

text \<open>
  A second catalog: descriptor 0 is a kernel for beam width 4 on SM 80, descriptor 1 a
  kernel for SM 90 with an 8-bit-float KV cache, whose module declares the kernel
  type \<open>kHOPPER_WARP_SPECIALIZED\<close>. The two lists below are loaded from it for SM 80
  and for SM 90; the two requests match their kernels.
\<close>

definition ex_catalog_b :: "XQAKernelMetaInfo list" where
  "ex_catalog_b =
     [(ex_meta 8 8 False (Some 400) ''kernel_beam'' 80)\<lparr>mBeamWidth := 4\<rparr>,
      (ex_meta 8 8 False (Some 500) ''kernel_gmma'' 90)\<lparr>mKVDataType := DATA_TYPE_E4M3\<rparr>]"

definition ex_driver_b :: driver where
  "ex_driver_b =
     \<lparr>cuModuleLoadData = (\<lambda>cubin. if cubin = 400 then Some 4 else if cubin = 500 then Some 5 else None),
      cuModuleGetFunction =
        (\<lambda>hmod name. if name = ''kernel_beam'' then Some 14
                      else if name = ''kernel_gmma'' then Some 15 else None),
      getGlobalVar_uint32 = (\<lambda>hmod name. Some 30000),
      getGlobalVar_kernelType =
        (\<lambda>hmod name. if hmod = 5 then Some kHOPPER_WARP_SPECIALIZED else None),
      cuFuncSetAttribute = (\<lambda>f bytes. True)\<rparr>"

definition ex_loaded_beam :: XQAKernelList where
  "ex_loaded_beam =
     snd (loadXQAKernels ex_driver_b (XQAKernelList_new ex_catalog_b False DATA_TYPE_FP16 80))"

definition ex_loaded_sm90 :: XQAKernelList where
  "ex_loaded_sm90 =
     snd (loadXQAKernels ex_driver_b (XQAKernelList_new ex_catalog_b False DATA_TYPE_FP16 90))"

definition ex_params_beam :: XQAParams where
  "ex_params_beam = ex_params\<lparr>beam_width := 4\<rparr>"

definition ex_launchParams_beam :: XQALaunchParam where
  "ex_launchParams_beam = \<lparr>beamSearchParams = Some 0\<rparr>"

definition ex_params_gmma :: XQAParams where
  "ex_params_gmma = ex_params\<lparr>kv_cache_data_type := DATA_TYPE_E4M3\<rparr>"

section \<open>Properties\<close>

subsection \<open>Arithmetic of the model\<close>

lemma int_div_le_dividend: "0 \<le> (a::int) \<Longrightarrow> 0 < b \<Longrightarrow> a div b \<le> a"
  by (metis div_by_1 int_one_le_iff_zero_less zdiv_mono2 zero_less_one)

lemma sdiv_int_range:
  fixes a b :: int
  assumes "- (2 ^ 31) \<le> a" and "a < 2 ^ 31" and "b \<noteq> 0" and "\<not> (a = - (2 ^ 31) \<and> b = - 1)"
  shows "- (2 ^ 31) \<le> a sdiv b \<and> a sdiv b < 2 ^ 31"
proof -
  have le: "\<bar>a\<bar> div \<bar>b\<bar> \<le> \<bar>a\<bar>" using int_div_le_dividend[of "\<bar>a\<bar>" "\<bar>b\<bar>"] assms(3) by simp
  have nn: "0 \<le> \<bar>a\<bar> div \<bar>b\<bar>" using assms(3) by (simp add: pos_imp_zdiv_nonneg_iff)
  have abs: "\<bar>a sdiv b\<bar> = \<bar>a\<bar> div \<bar>b\<bar>"
    using assms(3) nn by (auto simp: signed_divide_int_def abs_mult sgn_if)
  show ?thesis
  proof (cases "a = - (2 ^ 31)")
    case False
    then have "\<bar>a\<bar> < 2 ^ 31" using assms(1,2) by linarith
    then show ?thesis using le abs by linarith
  next
    case True
    then have b1: "b \<noteq> - 1" using assms(4) by simp
    show ?thesis
    proof (cases "b = 1")
      case True
      then show ?thesis using assms(1,2) by simp
    next
      case False
      then have "2 \<le> \<bar>b\<bar>" using b1 assms(3) by linarith
      then have "\<bar>a\<bar> div \<bar>b\<bar> \<le> \<bar>a\<bar> div 2"
        by (intro zdiv_mono2) simp_all
      moreover have "\<bar>a\<bar> div 2 < 2 ^ 31" using True by simp
      ultimately show ?thesis using abs by linarith
    qed
  qed
qed

lemma sint_int_div_defined:
  assumes "\<not> int_div_undefined a b"
  shows "sint (int_div a b) = sint a sdiv sint b"
proof -
  have b0: "sint b \<noteq> 0" using assms by (simp add: int_div_undefined_def signed_eq_0_iff)
  have r: "- (2 ^ 31) \<le> sint a sdiv sint b \<and> sint a sdiv sint b < 2 ^ 31"
    using sint_ge[of a] sint_lt[of a] b0 assms
    by (intro sdiv_int_range) (simp_all add: int_div_undefined_def)
  then show ?thesis
    by (simp add: int_div_def sint_sbintrunc' signed_take_bit_int_eq_self)
qed

lemma sint_word_of_int_range:
  assumes "- (2 ^ 31) \<le> k" and "k < 2 ^ 31"
  shows "sint (word_of_int k :: 32 word) = k"
  using assms by (simp add: sint_sbintrunc' signed_take_bit_int_eq_self)

lemma sint_mult3_exact:
  fixes a b d :: "32 word"
  assumes "\<bar>sint a * sint b * sint d\<bar> < 2 ^ 24"
  shows "sint (a * b * d) = sint a * sint b * sint d"
proof -
  let ?x = "sint a * sint b * sint d"
  have e: "a * b * d = word_of_int ?x" by simp
  have "- (2 ^ 31) \<le> ?x" "?x < 2 ^ 31" using assms by simp_all
  then have s: "sint (word_of_int ?x :: 32 word) = ?x"
    by (rule sint_word_of_int_range)
  show ?thesis by (subst e) (rule s)
qed

text \<open>The position of the leading bit of a rational that is at least 1.\<close>

lemma floor_log2_eqI:
  assumes "2 ^ n \<le> x" and "x < 2 ^ Suc n"
  shows "floor_log2 (x::rat) = int n"
proof -
  have x1: "1 \<le> x" using assms(1) one_le_power[of "2::rat" n] by linarith
  let ?m = "nat \<lfloor>x\<rfloor>"
  have "(2::int) ^ n \<le> \<lfloor>x\<rfloor>" using assms(1) by (simp add: le_floor_iff)
  then have lo: "2 ^ n \<le> ?m" by (simp add: le_nat_iff)
  have "\<lfloor>x\<rfloor> < 2 ^ Suc n" using assms(2) by (simp add: floor_less_iff)
  moreover have "int ?m = \<lfloor>x\<rfloor>" using x1 by simp
  ultimately have "int ?m < int (2 ^ Suc n)" by simp
  then have hi: "?m < 2 ^ Suc n" by (simp only: of_nat_less_iff)
  have "floorlog 2 ?m \<le> Suc n" using hi by (intro floorlog_leI) auto
  moreover have "Suc n \<le> floorlog 2 ?m" using lo by (intro floorlog_ge_SucI) auto
  ultimately have "floorlog 2 ?m = Suc n" by simp
  then show ?thesis using x1 by (simp add: floor_log2_def)
qed

lemma round_half_even_of_int: "round_half_even (of_int k) = k"
  by (simp add: round_half_even_def)

lemma f32_round_minus: "f32_round (- x) = - f32_round x"
  by (simp add: f32_round_def Let_def)

text \<open>
  An integer of fewer than 25 bits, scaled by a power of two, is a single-precision
  value: rounding leaves it as it is.
\<close>

lemma f32_round_exact_pos:
  assumes "0 < m" and "m < 2 ^ 24"
  shows "f32_round (of_int m * 2 ^ j) = of_int m * 2 ^ j"
proof -
  let ?b = "floorlog 2 (nat m)"
  let ?x = "of_int m * 2 ^ j :: rat"
  have mpos: "0 < nat m" using assms by simp
  from floorlog_bounds[of "nat m" 2] mpos
  have b: "2 ^ (?b - 1) \<le> nat m" "nat m < 2 ^ ?b" by auto
  have b1: "1 \<le> ?b"
    using mpos
    by (simp add: Suc_le_eq floorlog_eq_zero_iff[of 2 "nat m"] zero_less_iff_neq_zero del: neq0_conv)
  have b24: "?b \<le> 24" using assms by (intro floorlog_leI) (auto simp: nat_less_iff)
  have lo: "(2::rat) ^ (?b - 1 + j) \<le> ?x"
  proof -
    have "(of_nat (2 ^ (?b - 1)) :: rat) \<le> of_nat (nat m)"
      using b(1) by (simp only: of_nat_le_iff)
    then have "(2::rat) ^ (?b - 1) \<le> of_int m" using assms by simp
    then show ?thesis by (simp add: power_add)
  qed
  have hi: "?x < 2 ^ Suc (?b - 1 + j)"
  proof -
    have "(of_nat (nat m) :: rat) < of_nat (2 ^ ?b)" using b(2) by (simp only: of_nat_less_iff)
    then have "of_int m < (2::rat) ^ ?b" using assms by simp
    moreover have "Suc (?b - 1 + j) = ?b + j" using b1 by simp
    ultimately show ?thesis by (simp add: power_add)
  qed
  have fl: "floor_log2 ?x = int (?b - 1 + j)" using lo hi by (rule floor_log2_eqI)
  have xpos: "0 < ?x" using assms by simp
  define e where "e = int (?b - 1 + j) - 23"
  have e_eq: "e = int j - int (24 - ?b)" using b1 b24 by (simp add: e_def)
  have "(2::rat) powi e = 2 ^ j / 2 ^ (24 - ?b)"
    unfolding e_eq by (simp add: power_int_diff)
  then have q: "?x / 2 powi e = of_int (m * 2 ^ (24 - ?b))"
    and scaled: "of_int (m * 2 ^ (24 - ?b)) * 2 powi e = ?x"
    by simp_all
  have "f32_round ?x = sgn ?x * of_int (round_half_even (\<bar>?x\<bar> / 2 powi e)) * 2 powi e"
    using xpos assms(1) by (simp add: f32_round_def fl e_def Let_def)
  also have "\<dots> = of_int (round_half_even (?x / 2 powi e)) * 2 powi e"
    using xpos by (simp add: abs_of_pos)
  also have "\<dots> = ?x" unfolding q round_half_even_of_int by (rule scaled)
  finally show ?thesis .
qed

lemma f32_round_exact:
  assumes "\<bar>m\<bar> < 2 ^ 24"
  shows "f32_round (of_int m * 2 ^ j) = of_int m * 2 ^ j"
proof -
  consider "m = 0" | "0 < m" | "m < 0" by linarith
  then show ?thesis
  proof cases
    case 1
    then show ?thesis by (simp add: f32_round_def)
  next
    case 2
    then show ?thesis using assms by (intro f32_round_exact_pos) auto
  next
    case 3
    then have "f32_round (of_int (- m) * 2 ^ j) = of_int (- m) * 2 ^ j"
      using assms by (intro f32_round_exact_pos) auto
    then show ?thesis using f32_round_minus[of "of_int m * 2 ^ j"] by simp
  qed
qed

lemma float_of_int32_exact:
  assumes "\<bar>sint n\<bar> < 2 ^ 24"
  shows "float_of_int32 n = of_int (sint n)"
  using f32_round_exact[OF assms, of 0] by (simp add: float_of_int32_def)

text \<open>Two roundings of values that need 25 bits.\<close>

lemma f32_round_2p24: "f32_round 16777216 = 16777216"
  using f32_round_exact[of 1 24] by simp

lemma f32_round_2p24_plus_1: "f32_round 16777217 = 16777216"
proof -
  have "floor_log2 16777217 = int 24" by (rule floor_log2_eqI) simp_all
  moreover have "\<lfloor>16777217 / 2 :: rat\<rfloor> = 8388608" by (rule floor_unique) simp_all
  ultimately show ?thesis by (simp add: f32_round_def round_half_even_def Let_def)
qed

subsection \<open>The eligibility heuristic\<close>

text \<open>
  Claim C1, amended. \<open>mayHavePerfGain\<close> returns true when the force-XQA override is set
  or the request uses multi-token speculative decoding. Otherwise it returns true if
  and only if \<open>workBlocks * tuningFactor \<ge> parallelismWidth\<close> (equality included), where
  \<open>workBlocks\<close> is KV-head count times batch size times split factor, and the split
  factor is the truncated quotient \<open>historyLength / minHistoryTokensPerBlock\<close> in
  multi-block mode (0 for a history shorter than one block: there is no lower bound
  of 1) and 1 otherwise. This holds where the arithmetic of the code is exact: the
  division is defined, the \<open>int\<close> products do not overflow, the tuning factor is an
  integer \<open>a\<close> times a power of two, and \<open>workBlocks\<close>, \<open>workBlocks * a\<close> and the
  parallelism width are below \<open>2^24\<close> in magnitude, so that the conversions to
  \<open>float\<close> and the product round nothing away.
\<close>

theorem mayHavePerfGain_threshold:
  "(mForceXQA this \<or> multi_query_tokens p \<longrightarrow> mayHavePerfGain c this p w) \<and>
   (\<not> mForceXQA this \<and> \<not> multi_query_tokens p
      \<and> (multi_block_mode p \<longrightarrow>
            \<not> int_div_undefined (timestep p) (kMinHistoryTokensPerBlock c))
      \<and> kEnableMinBlockFactor c = of_int a * 2 ^ j
      \<and> \<bar>sint (num_kv_heads p) * sint (batch_size p)\<bar> < 2 ^ 31
      \<and> workBlocks = sint (num_kv_heads p) * sint (batch_size p) *
           (if multi_block_mode p
            then sint (timestep p) sdiv sint (kMinHistoryTokensPerBlock c) else 1)
      \<and> \<bar>workBlocks\<bar> < 2 ^ 24 \<and> \<bar>workBlocks * a\<bar> < 2 ^ 24 \<and> \<bar>sint w\<bar> < 2 ^ 24
    \<longrightarrow> mayHavePerfGain c this p w
          = (of_int (sint w) \<le> of_int workBlocks * kEnableMinBlockFactor c))"
proof (intro conjI impI)
  assume "mForceXQA this \<or> multi_query_tokens p"
  then show "mayHavePerfGain c this p w" by (simp add: mayHavePerfGain_def)
next
  let ?split = "if multi_block_mode p
    then sint (timestep p) sdiv sint (kMinHistoryTokensPerBlock c) else 1"
  let ?mbc = "if multi_block_mode p
    then int_div (timestep p) (kMinHistoryTokensPerBlock c) else (1 :: 32 word)"
  assume h: "\<not> mForceXQA this \<and> \<not> multi_query_tokens p
      \<and> (multi_block_mode p \<longrightarrow>
            \<not> int_div_undefined (timestep p) (kMinHistoryTokensPerBlock c))
      \<and> kEnableMinBlockFactor c = of_int a * 2 ^ j
      \<and> \<bar>sint (num_kv_heads p) * sint (batch_size p)\<bar> < 2 ^ 31
      \<and> workBlocks = sint (num_kv_heads p) * sint (batch_size p) * ?split
      \<and> \<bar>workBlocks\<bar> < 2 ^ 24 \<and> \<bar>workBlocks * a\<bar> < 2 ^ 24 \<and> \<bar>sint w\<bar> < 2 ^ 24"
  have k: "kEnableMinBlockFactor c = of_int a * 2 ^ j" using h by blast
  have mbc: "sint ?mbc = ?split" using h by (simp add: sint_int_div_defined)
  have W: "workBlocks = sint (num_kv_heads p) * sint (batch_size p) * sint ?mbc"
    using h unfolding mbc by blast
  have bc: "sint (num_kv_heads p * batch_size p * ?mbc) = workBlocks"
    using sint_mult3_exact[of "num_kv_heads p" "batch_size p" ?mbc] h unfolding W by blast
  have fw: "float_of_int32 w = of_int (sint w)"
  proof (rule float_of_int32_exact)
    show "\<bar>sint w\<bar> < 2 ^ 24" using h by blast
  qed
  have fb: "float_of_int32 (num_kv_heads p * batch_size p * ?mbc) = of_int workBlocks"
    using h float_of_int32_exact[of "num_kv_heads p * batch_size p * ?mbc"]
    unfolding bc by blast
  have "float_mul (of_int workBlocks) (of_int a * 2 ^ j)
      = f32_round (of_int (workBlocks * a) * 2 ^ j)"
    by (simp add: float_mul_def mult.assoc)
  also have "\<dots> = of_int (workBlocks * a) * 2 ^ j"
  proof (rule f32_round_exact)
    show "\<bar>workBlocks * a\<bar> < 2 ^ 24" using h by blast
  qed
  finally have fm: "float_mul (of_int workBlocks) (of_int a * 2 ^ j)
      = of_int workBlocks * (of_int a * 2 ^ j)"
    by (simp add: mult.assoc)
  have "mayHavePerfGain c this p w =
      (float_of_int32 w
         \<le> float_mul (float_of_int32 (num_kv_heads p * batch_size p * ?mbc))
              (kEnableMinBlockFactor c))"
    using h by (simp add: mayHavePerfGain_def Let_def)
  also have "\<dots> = (of_int (sint w) \<le> of_int workBlocks * kEnableMinBlockFactor c)"
    by (simp only: fw fb fm k)
  finally show "mayHavePerfGain c this p w
      = (of_int (sint w) \<le> of_int workBlocks * kEnableMinBlockFactor c)" .
qed

text \<open>
  With 4 KV heads, batch size 4 and a history of 1000 tokens in blocks of 128, there
  are \<open>4 * 4 * 7 = 112\<close> work blocks; with the factor 4 the threshold is 448.
\<close>

theorem mayHavePerfGain_threshold_witness:
  "mayHavePerfGain ex_constants ex_list ex_params 448
   \<and> \<not> mayHavePerfGain ex_constants ex_list ex_params 449
   \<and> mayHavePerfGain ex_constants (ex_list\<lparr>mForceXQA := True\<rparr>) ex_params 449"
proof -
  have d: "\<not> int_div_undefined 1000 128" by (simp add: int_div_undefined_def)
  have q: "sint (1000 :: 32 word) sdiv sint (128 :: 32 word) = 7"
    by (simp add: signed_divide_int_def)
  have a: "mayHavePerfGain ex_constants ex_list ex_params 448"
    using mayHavePerfGain_threshold
      [where this = ex_list and p = ex_params and c = ex_constants and a = 1 and j = 2
         and w = 448 and workBlocks = 112]
    by (simp add: ex_constants_def ex_list_def XQAKernelList_new_def ex_params_def d q)
  have b: "\<not> mayHavePerfGain ex_constants ex_list ex_params 449"
    using mayHavePerfGain_threshold
      [where this = ex_list and p = ex_params and c = ex_constants and a = 1 and j = 2
         and w = 449 and workBlocks = 112]
    by (simp add: ex_constants_def ex_list_def XQAKernelList_new_def ex_params_def d q)
  have c: "mayHavePerfGain ex_constants (ex_list\<lparr>mForceXQA := True\<rparr>) ex_params 449"
    using mayHavePerfGain_threshold
      [where this = "ex_list\<lparr>mForceXQA := True\<rparr>" and p = ex_params
         and c = ex_constants and w = 449]
    by simp
  show ?thesis using a b c by blast
qed

text \<open>
  The claim as stated fails at two inputs. In multi-block mode with a history of 100
  tokens (less than one block of 128) the code counts no work block and returns
  false for one multiprocessor, where \<open>max(1, 100 / 128) = 1\<close> gives \<open>16 * 4 \<ge> 1\<close>.
  And with \<open>64 * 65536\<close> work blocks and a width of \<open>2^24 + 1\<close>, the width is rounded
  to \<open>2^24\<close> by the conversion to \<open>float\<close>, so the code returns true, where
  \<open>2^24 \<ge> 2^24 + 1\<close> is false.
\<close>

theorem mayHavePerfGain_counterexample:
  "\<not> mayHavePerfGain ex_constants ex_list (ex_params\<lparr>timestep := 100\<rparr>) 1
   \<and> spec_mayHavePerfGain ex_constants (mForceXQA ex_list) (ex_params\<lparr>timestep := 100\<rparr>) 1
   \<and> mayHavePerfGain ex_constants ex_list
        (ex_params\<lparr>num_kv_heads := 64, batch_size := 65536, multi_block_mode := False\<rparr>)
        16777217
   \<and> \<not> spec_mayHavePerfGain ex_constants (mForceXQA ex_list)
        (ex_params\<lparr>num_kv_heads := 64, batch_size := 65536, multi_block_mode := False\<rparr>)
        16777217"
proof -
  have f0: "float_of_int32 0 = 0" by (simp add: float_of_int32_def f32_round_def)
  have f1: "float_of_int32 1 = 1" using float_of_int32_exact[of 1] by simp
  have a: "\<not> mayHavePerfGain ex_constants ex_list (ex_params\<lparr>timestep := 100\<rparr>) 1"
    by (simp add: mayHavePerfGain_def ex_constants_def ex_list_def XQAKernelList_new_def
        ex_params_def int_div_def f0 f1 float_mul_def f32_round_def)
  have b: "spec_mayHavePerfGain ex_constants (mForceXQA ex_list)
      (ex_params\<lparr>timestep := 100\<rparr>) 1"
    by (simp add: spec_mayHavePerfGain_def spec_workBlocks_def ex_constants_def
        ex_list_def XQAKernelList_new_def ex_params_def)
  have fb: "float_of_int32 4194304 = 4194304" using float_of_int32_exact[of 4194304] by simp
  have fw: "float_of_int32 16777217 = 16777216"
    by (simp add: float_of_int32_def f32_round_2p24_plus_1)
  have c: "mayHavePerfGain ex_constants ex_list
      (ex_params\<lparr>num_kv_heads := 64, batch_size := 65536, multi_block_mode := False\<rparr>)
      16777217"
    by (simp add: mayHavePerfGain_def ex_constants_def ex_list_def XQAKernelList_new_def
        ex_params_def fb fw float_mul_def f32_round_2p24)
  have d: "\<not> spec_mayHavePerfGain ex_constants (mForceXQA ex_list)
      (ex_params\<lparr>num_kv_heads := 64, batch_size := 65536, multi_block_mode := False\<rparr>)
      16777217"
    by (simp add: spec_mayHavePerfGain_def spec_workBlocks_def ex_constants_def
        ex_list_def XQAKernelList_new_def ex_params_def)
  show ?thesis using a b c d by blast
qed

subsection \<open>The head-count check\<close>

lemma smod_int_eq_0_iff: "(a::int) smod b = 0 \<longleftrightarrow> b dvd a"
proof -
  have "a smod b = 0 \<longleftrightarrow> \<bar>a\<bar> mod \<bar>b\<bar> = 0"
    by (auto simp: signed_modulo_int_def sgn_if)
  also have "\<dots> \<longleftrightarrow> \<bar>b\<bar> dvd \<bar>a\<bar>" by (simp add: dvd_eq_mod_eq_0)
  also have "\<dots> \<longleftrightarrow> b dvd a" by simp
  finally show ?thesis .
qed

lemma smod_int_abs_less: "b \<noteq> 0 \<Longrightarrow> \<bar>(a::int) smod b\<bar> < \<bar>b\<bar>"
  by (simp add: signed_modulo_int_def abs_mult sgn_if)

lemma word32_of_int_eq_0: 
  assumes "\<bar>k\<bar> < 2 ^ 32" shows "(word_of_int k :: 32 word) = 0 \<longleftrightarrow> k = 0"
proof
  assume "(word_of_int k :: 32 word) = 0"
  then have "2 ^ 32 dvd k" by (simp add: word_of_int_eq_0_iff)
  then have d: "2 ^ 32 dvd \<bar>k\<bar>" by simp
  show "k = 0"
  proof (rule ccontr)
    assume "k \<noteq> 0"
    then have "0 < \<bar>k\<bar>" by simp
    from zdvd_not_zless[OF this assms] d show False by simp
  qed
qed simp

lemma int_rem_eq_0_iff:
  assumes "b \<noteq> 0"
  shows "int_rem a b = 0 \<longleftrightarrow> sint b dvd sint a"
proof -
  have b0: "sint b \<noteq> 0" using assms by (simp add: signed_eq_0_iff)
  have "\<bar>sint b\<bar> \<le> 2 ^ 31" using sint_ge[of b] sint_lt[of b] by simp
  moreover have "(2::int) ^ 31 < 2 ^ 32" by simp
  ultimately have "\<bar>sint a smod sint b\<bar> < 2 ^ 32"
    using smod_int_abs_less[OF b0, of "sint a"] by linarith
  then show ?thesis by (simp add: int_rem_def word32_of_int_eq_0 smod_int_eq_0_iff)
qed

lemma head_counts_defined:
  assumes "num_kv_heads p \<noteq> 0" and "\<not> sint (num_kv_heads p) dvd sint (num_q_heads p)"
  shows "\<not> int_div_undefined (num_q_heads p) (num_kv_heads p)"
  using assms by (auto simp: int_div_undefined_def)

text \<open>
  Claim C7, amended. For every request with a non-zero KV-head count whose query-head
  count is not an exact multiple of its KV-head count, \<open>supportConfig\<close> and \<open>run\<close> both
  fail with the check \<^verbatim>\<open>numQHeads should be multiple of numKVHeads.\<close> The result
  does not depend on the kernel list: the check comes before the key is derived and
  before \<open>mFunctions\<close> is read. A KV-head count of 0 is left out: there the
  remainder \<open>num_q_heads % num_kv_heads\<close> of lines 111 and 153 is evaluated before
  the check can fail, and it is undefined in C++ (\<open>UndefinedDivision\<close> in the model).
\<close>

theorem head_count_check:
  assumes "num_kv_heads p \<noteq> 0" and "\<not> sint (num_kv_heads p) dvd sint (num_q_heads p)"
  shows "supportConfig this p = Inl (CheckFailed ''numQHeads should be multiple of numKVHeads.'')
       \<and> run c ext this p launchParams w
           = Inl (CheckFailed ''numQHeads should be multiple of numKVHeads.'')"
proof -
  have d: "\<not> int_div_undefined (num_q_heads p) (num_kv_heads p)"
    using assms by (rule head_counts_defined)
  have r: "int_rem (num_q_heads p) (num_kv_heads p) \<noteq> 0"
    using assms by (simp add: int_rem_eq_0_iff)
  show ?thesis using d r by (simp add: supportConfig_def run_def Let_def)
qed

subsection \<open>The configuration key\<close>

text \<open>
  Claim C3. The key that \<open>run\<close> looks up: in multi-token mode its head-ratio field is 0
  whatever the head counts are, and its tile size is 16 for a query length
  (\<open>qSeqLen\<close>, the unsigned \<open>generation_input_length\<close>) of at most 16 and 32 above; in
  single-token mode the head-ratio field is the quotient \<open>num_q_heads / num_kv_heads\<close>
  (truncated, as a 32-bit word), the tile size is the same value, and the query length
  has no influence. A launch that \<open>run\<close> issues is for the function stored under this
  key.
\<close>

theorem run_hash_key_fields:
  "(multi_query_tokens p \<longrightarrow>
      num_q_heads_per_kv (run_hash_key p) = 0
      \<and> m_tilesize (run_hash_key p) = (if generation_input_length p \<le> 16 then 16 else 32))
   \<and> (\<not> multi_query_tokens p \<longrightarrow>
      num_q_heads_per_kv (run_hash_key p)
        = word_of_int (sint (num_q_heads p) sdiv sint (num_kv_heads p))
      \<and> m_tilesize (run_hash_key p) = num_q_heads_per_kv (run_hash_key p)
      \<and> run_hash_key (p\<lparr>generation_input_length := g\<rparr>) = run_hash_key p)
   \<and> (run c ext this p launchParams w = Inr l \<longrightarrow>
        (\<exists>info. map_of (mFunctions this) (run_hash_key p) = Some info
                \<and> func l = mDeviceFunction info))"
proof (intro conjI impI)
  assume r: "run c ext this p launchParams w = Inr l"
  then obtain info where i: "map_of (mFunctions this) (run_hash_key p) = Some info"
    by (auto simp: run_def Let_def split: if_splits option.splits)
  have "func l = mDeviceFunction info"
    using r i
    by (auto simp: run_def Let_def run_multi_query_tokens_def run_single_query_token_def
        split: if_splits sum.splits prod.splits)
  with i show "\<exists>info. map_of (mFunctions this) (run_hash_key p) = Some info
                \<and> func l = mDeviceFunction info" by blast
qed (simp_all add: run_hash_key_def Let_def int_div_def)

text \<open>
  Claim C4, amended. The key of \<open>supportConfig\<close> equals the key of \<open>run\<close> exactly when
  the request is single-token or its query length is at most 16; for such a request,
  if \<open>supportConfig\<close> reports support then the lookup of \<open>run\<close> finds a function.
\<close>

theorem hash_key_agreement:
  "(supportConfig_hash_key p = run_hash_key p)
     = (\<not> multi_query_tokens p \<or> generation_input_length p \<le> 16)
   \<and> ((\<not> multi_query_tokens p \<or> generation_input_length p \<le> 16)
        \<and> supportConfig this p = Inr True
        \<longrightarrow> map_of (mFunctions this) (run_hash_key p) \<noteq> None)"
proof (intro conjI impI)
  show k: "(supportConfig_hash_key p = run_hash_key p)
     = (\<not> multi_query_tokens p \<or> generation_input_length p \<le> 16)"
    by (auto simp: supportConfig_hash_key_def run_hash_key_def Let_def)
  assume h: "(\<not> multi_query_tokens p \<or> generation_input_length p \<le> 16)
        \<and> supportConfig this p = Inr True"
  then have "supportConfig_hash_key p = run_hash_key p" using k by simp
  moreover have "map_of (mFunctions this) (supportConfig_hash_key p) \<noteq> None"
    using h by (auto simp: supportConfig_def Let_def split: if_splits)
  ultimately show "map_of (mFunctions this) (run_hash_key p) \<noteq> None" by simp
qed

subsection \<open>The launch arguments\<close>

lemma replicate_11: "replicate 11 x = [x, x, x, x, x, x, x, x, x, x, x]"
  by (simp add: numeral_eq_Suc)

lemma buildKernelParams_value:
  "buildKernelParams isGmmaKernel p lp =
     (if 1 <s beam_width p \<and> beamSearchParams lp = None then Inl BadOptionalAccess
      else Inr (8 + (if 1 <s beam_width p then 1 else 0) + (if isGmmaKernel then 1 else 0),
        [Ptr_num_k_heads, Ptr_output, Ptr_xqa_q_input_ptr, Ptr_kvCacheParams]
        @ (if 1 <s beam_width p then [Ptr_beamSearchParams] else [])
        @ [Ptr_batch_size, Ptr_kv_scale_quant_orig]
        @ (if isGmmaKernel then [Ptr_tensorMap] else [])
        @ [Ptr_semaphores, Ptr_scratch, Nullptr]
        @ replicate (2 - (if 1 <s beam_width p then 1 else 0) - (if isGmmaKernel then 1 else 0))
            Uninitialized))"
  by (cases isGmmaKernel; cases "1 <s beam_width p"; cases "beamSearchParams lp")
    (simp_all add: buildKernelParams_def kMAX_NB_KERNEL_PARAMS_def replicate_11 appendParam_def
      Let_def numeral_eq_Suc)

text \<open>
  Within \<open>run\<close> the check of line 255 leaves no launch with both optional arguments: a
  \<open>kHOPPER_WARP_SPECIALIZED\<close> kernel is launched with beam width 1 only.
\<close>

lemma run_gmma_beam_width:
  assumes "\<not> multi_query_tokens p" and "run c ext this p lp w = Inr l"
    and "map_of (mFunctions this) (run_hash_key p) = Some info"
    and "mKernelType info = kHOPPER_WARP_SPECIALIZED"
  shows "beam_width p = 1"
  using assms
  by (auto simp: run_def run_single_query_token_def Let_def split: if_splits)

text \<open>
  A single-token request that passes every check is launched, and with which array.
\<close>

lemma run_single_token_launch:
  assumes "\<not> multi_query_tokens p"
    and "\<not> int_div_undefined (num_q_heads p) (num_kv_heads p)"
    and "int_rem (num_q_heads p) (num_kv_heads p) = 0"
    and "map_of (mFunctions this) (run_hash_key p) = Some info"
    and "(mKernelType info = kHOPPER_WARP_SPECIALIZED)
          = (mSM this = kSM_90 c \<and> kv_cache_data_type p = DATA_TYPE_E4M3 \<and> beam_width p = 1)"
    and "1 <s beam_width p \<longrightarrow> beamSearchParams lp \<noteq> None"
  shows "\<exists>l. run c ext this p lp w = Inr l
       \<and> func l = mDeviceFunction info
       \<and> launchKernelParams l
           = [Ptr_num_k_heads, Ptr_output, Ptr_xqa_q_input_ptr, Ptr_kvCacheParams]
             @ (if 1 <s beam_width p then [Ptr_beamSearchParams] else [])
             @ [Ptr_batch_size, Ptr_kv_scale_quant_orig]
             @ (if mKernelType info = kHOPPER_WARP_SPECIALIZED then [Ptr_tensorMap] else [])
             @ [Ptr_semaphores, Ptr_scratch, Nullptr]
             @ replicate (2 - (if 1 <s beam_width p then 1 else 0)
                            - (if mKernelType info = kHOPPER_WARP_SPECIALIZED then 1 else 0))
                 Uninitialized"
proof -
  have r: "run c ext this p lp w = run_single_query_token c ext this info p lp w"
    using assms(1-4) by (simp add: run_def Let_def)
  show ?thesis
    unfolding r using assms(5,6)
    by (cases "mKernelType info = kHOPPER_WARP_SPECIALIZED"; cases "1 <s beam_width p")
      (auto simp: run_single_query_token_def Let_def buildKernelParams_value)
qed

text \<open>
  Claim C2. The argument array of a single-token launch holds, in this order, KV head
  count, output pointer, query pointer, KV-cache parameters, the beam-search
  parameters if and only if \<open>beam_width > 1\<close>, batch size, KV dequantization scale,
  the tensor map if and only if the kernel is a \<open>kHOPPER_WARP_SPECIALIZED\<close> one,
  semaphores and scratch, then a null pointer: 9 entries with neither optional
  argument, 10 with one and 11 with both; what is left of the 11 elements is never
  written. Building the array fails only on an empty \<open>beamSearchParams\<close> with
  \<open>beam_width > 1\<close>, and the array of a single-token launch of \<open>run\<close> is the one built
  for the kernel type of the function found. \<open>run\<close> does issue the launch, with
  exactly this array, for every single-token request that passes the head-count
  check, finds its function, agrees with the check of line 255 and has its
  \<open>beamSearchParams\<close> when \<open>beam_width > 1\<close>. That check leaves no launch of \<open>run\<close> with
  both optional arguments, so the arrays that \<open>run\<close> launches have 9 or 10 entries.
\<close>

theorem single_token_kernelParams:
  "(buildKernelParams isGmmaKernel p lp = Inr (idxNextParam, arr) \<longrightarrow>
      take (idxNextParam + 1) arr
        = [Ptr_num_k_heads, Ptr_output, Ptr_xqa_q_input_ptr, Ptr_kvCacheParams]
          @ (if 1 <s beam_width p then [Ptr_beamSearchParams] else [])
          @ [Ptr_batch_size, Ptr_kv_scale_quant_orig]
          @ (if isGmmaKernel then [Ptr_tensorMap] else [])
          @ [Ptr_semaphores, Ptr_scratch, Nullptr]
      \<and> idxNextParam + 1
          = 9 + (if 1 <s beam_width p then 1 else 0) + (if isGmmaKernel then 1 else 0)
      \<and> length arr = 11
      \<and> drop (idxNextParam + 1) arr = replicate (10 - idxNextParam) Uninitialized)
   \<and> ((1 <s beam_width p \<longrightarrow> beamSearchParams lp \<noteq> None) \<longrightarrow>
        (\<exists>st. buildKernelParams isGmmaKernel p lp = Inr st))
   \<and> (\<not> multi_query_tokens p \<and> run c ext this p lp w = Inr l \<longrightarrow>
        (\<exists>info idx. map_of (mFunctions this) (run_hash_key p) = Some info
           \<and> buildKernelParams (mKernelType info = kHOPPER_WARP_SPECIALIZED) p lp
               = Inr (idx, launchKernelParams l)))
   \<and> (\<not> multi_query_tokens p
       \<and> \<not> int_div_undefined (num_q_heads p) (num_kv_heads p)
       \<and> int_rem (num_q_heads p) (num_kv_heads p) = 0
       \<and> map_of (mFunctions this) (run_hash_key p) = Some info
       \<and> (mKernelType info = kHOPPER_WARP_SPECIALIZED)
            = (mSM this = kSM_90 c \<and> kv_cache_data_type p = DATA_TYPE_E4M3
               \<and> beam_width p = 1)
       \<and> (1 <s beam_width p \<longrightarrow> beamSearchParams lp \<noteq> None)
      \<longrightarrow> (\<exists>l. run c ext this p lp w = Inr l
             \<and> func l = mDeviceFunction info
             \<and> launchKernelParams l
                 = [Ptr_num_k_heads, Ptr_output, Ptr_xqa_q_input_ptr, Ptr_kvCacheParams]
                   @ (if 1 <s beam_width p then [Ptr_beamSearchParams] else [])
                   @ [Ptr_batch_size, Ptr_kv_scale_quant_orig]
                   @ (if mKernelType info = kHOPPER_WARP_SPECIALIZED
                      then [Ptr_tensorMap] else [])
                   @ [Ptr_semaphores, Ptr_scratch, Nullptr]
                   @ replicate
                       (2 - (if 1 <s beam_width p then 1 else 0)
                          - (if mKernelType info = kHOPPER_WARP_SPECIALIZED then 1 else 0))
                       Uninitialized))
   \<and> (\<not> multi_query_tokens p \<and> run c ext this p lp w = Inr l
       \<and> map_of (mFunctions this) (run_hash_key p) = Some info
       \<and> mKernelType info = kHOPPER_WARP_SPECIALIZED
      \<longrightarrow> \<not> 1 <s beam_width p)"
proof (intro conjI impI)
  assume "buildKernelParams isGmmaKernel p lp = Inr (idxNextParam, arr)"
  then have v: "\<not> (1 <s beam_width p \<and> beamSearchParams lp = None)"
    and i: "idxNextParam = 8 + (if 1 <s beam_width p then 1 else 0) + (if isGmmaKernel then 1 else 0)"
    and a: "arr = [Ptr_num_k_heads, Ptr_output, Ptr_xqa_q_input_ptr, Ptr_kvCacheParams]
        @ (if 1 <s beam_width p then [Ptr_beamSearchParams] else [])
        @ [Ptr_batch_size, Ptr_kv_scale_quant_orig]
        @ (if isGmmaKernel then [Ptr_tensorMap] else [])
        @ [Ptr_semaphores, Ptr_scratch, Nullptr]
        @ replicate (2 - (if 1 <s beam_width p then 1 else 0) - (if isGmmaKernel then 1 else 0))
            Uninitialized"
    by (simp_all add: buildKernelParams_value split: if_splits)
  show "take (idxNextParam + 1) arr
        = [Ptr_num_k_heads, Ptr_output, Ptr_xqa_q_input_ptr, Ptr_kvCacheParams]
          @ (if 1 <s beam_width p then [Ptr_beamSearchParams] else [])
          @ [Ptr_batch_size, Ptr_kv_scale_quant_orig]
          @ (if isGmmaKernel then [Ptr_tensorMap] else [])
          @ [Ptr_semaphores, Ptr_scratch, Nullptr]"
    unfolding i a by simp
  show "idxNextParam + 1
          = 9 + (if 1 <s beam_width p then 1 else 0) + (if isGmmaKernel then 1 else 0)"
    unfolding i by simp
  show "length arr = 11" unfolding a by simp
  show "drop (idxNextParam + 1) arr = replicate (10 - idxNextParam) Uninitialized"
    unfolding i a by simp
next
  assume "1 <s beam_width p \<longrightarrow> beamSearchParams lp \<noteq> None"
  then show "\<exists>st. buildKernelParams isGmmaKernel p lp = Inr st"
    by (simp add: buildKernelParams_value)
next
  assume h: "\<not> multi_query_tokens p \<and> run c ext this p lp w = Inr l"
  then obtain info where i: "map_of (mFunctions this) (run_hash_key p) = Some info"
    and s: "run_single_query_token c ext this info p lp w = Inr l"
    by (auto simp: run_def Let_def split: if_splits option.splits)
  from s obtain idx where
    "buildKernelParams (mKernelType info = kHOPPER_WARP_SPECIALIZED) p lp
       = Inr (idx, launchKernelParams l)"
    by (auto simp: run_single_query_token_def Let_def split: if_splits sum.splits prod.splits)
  with i show "\<exists>info idx. map_of (mFunctions this) (run_hash_key p) = Some info
           \<and> buildKernelParams (mKernelType info = kHOPPER_WARP_SPECIALIZED) p lp
               = Inr (idx, launchKernelParams l)" by blast
next
  assume "\<not> multi_query_tokens p
       \<and> \<not> int_div_undefined (num_q_heads p) (num_kv_heads p)
       \<and> int_rem (num_q_heads p) (num_kv_heads p) = 0
       \<and> map_of (mFunctions this) (run_hash_key p) = Some info
       \<and> (mKernelType info = kHOPPER_WARP_SPECIALIZED)
            = (mSM this = kSM_90 c \<and> kv_cache_data_type p = DATA_TYPE_E4M3
               \<and> beam_width p = 1)
       \<and> (1 <s beam_width p \<longrightarrow> beamSearchParams lp \<noteq> None)"
  then show "\<exists>l. run c ext this p lp w = Inr l
             \<and> func l = mDeviceFunction info
             \<and> launchKernelParams l
                 = [Ptr_num_k_heads, Ptr_output, Ptr_xqa_q_input_ptr, Ptr_kvCacheParams]
                   @ (if 1 <s beam_width p then [Ptr_beamSearchParams] else [])
                   @ [Ptr_batch_size, Ptr_kv_scale_quant_orig]
                   @ (if mKernelType info = kHOPPER_WARP_SPECIALIZED
                      then [Ptr_tensorMap] else [])
                   @ [Ptr_semaphores, Ptr_scratch, Nullptr]
                   @ replicate
                       (2 - (if 1 <s beam_width p then 1 else 0)
                          - (if mKernelType info = kHOPPER_WARP_SPECIALIZED then 1 else 0))
                       Uninitialized"
    using run_single_token_launch[of p this info c lp ext w] by blast
next
  assume "\<not> multi_query_tokens p \<and> run c ext this p lp w = Inr l
       \<and> map_of (mFunctions this) (run_hash_key p) = Some info
       \<and> mKernelType info = kHOPPER_WARP_SPECIALIZED"
  then have "beam_width p = 1" using run_gmma_beam_width[of p c ext this lp w l info] by blast
  then show "\<not> 1 <s beam_width p" by (simp add: word_sless_alt)
qed

text \<open>
  Claim C9. In multi-token mode the argument list of the launch has 10 entries, the
  ninth (index 8) points to the local \<open>kvCacheQuantOrig\<close>, which is 1.0, and the
  request's \<open>kv_scale_quant_orig\<close> is not among the arguments; this holds for every
  request, whatever its \<open>kv_cache_quant_mode\<close> and scales. Once the head counts have
  passed the check and the key is found, \<open>run\<close> does issue this launch.
\<close>

theorem multi_token_dequant_scale:
  "(multi_query_tokens p \<and> run c ext this p launchParams w = Inr l \<longrightarrow>
      length (launchKernelParams l) = 10
      \<and> launchKernelParams l ! 8 = Ptr_kvCacheQuantOrig 1
      \<and> Ptr_kv_scale_quant_orig \<notin> set (launchKernelParams l))
   \<and> (multi_query_tokens p
       \<and> \<not> int_div_undefined (num_q_heads p) (num_kv_heads p)
       \<and> int_rem (num_q_heads p) (num_kv_heads p) = 0
       \<and> map_of (mFunctions this) (run_hash_key p) = Some info
      \<longrightarrow> run c ext this p launchParams w
            = Inr (run_multi_query_tokens ext info p w))"
proof (intro conjI impI)
  assume h: "multi_query_tokens p \<and> run c ext this p launchParams w = Inr l"
  then obtain info where "l = run_multi_query_tokens ext info p w"
    by (auto simp: run_def Let_def split: if_splits option.splits)
  then show "length (launchKernelParams l) = 10"
    and "launchKernelParams l ! 8 = Ptr_kvCacheQuantOrig 1"
    and "Ptr_kv_scale_quant_orig \<notin> set (launchKernelParams l)"
    by (simp_all add: run_multi_query_tokens_def Let_def)
next
  assume "multi_query_tokens p
       \<and> \<not> int_div_undefined (num_q_heads p) (num_kv_heads p)
       \<and> int_rem (num_q_heads p) (num_kv_heads p) = 0
       \<and> map_of (mFunctions this) (run_hash_key p) = Some info"
  then show "run c ext this p launchParams w = Inr (run_multi_query_tokens ext info p w)"
    by (simp add: run_def Let_def)
qed

subsection \<open>Loading\<close>

lemma loadedBlobs_append: "loadedBlobs (xs @ ys) = loadedBlobs xs @ loadedBlobs ys"
  by (induction xs rule: loadedBlobs.induct) simp_all

lemma map_of_None_iff: "map_of m k = None \<longleftrightarrow> k \<notin> fst ` set m"
  by (simp add: map_of_eq_None_iff)

lemma map_insert_new: "map_of m k = None \<Longrightarrow> map_insert k v m = (k, v) # m"
  by (simp add: map_insert_def)

lemma set_map_insert: "set (map_insert k v m) \<subseteq> insert (k, v) (set m)"
  by (auto simp: map_insert_def split: option.splits)

lemma map_insert_nonempty: "map_insert k v m \<noteq> []"
  by (auto simp: map_insert_def split: option.splits)

text \<open>
  What each step leaves alone.
\<close>

lemma logCall_frame [simp]:
  "mFunctions (logCall call this) = mFunctions this"
  "mKernelMeta (logCall call this) = mKernelMeta this"
  "mModules (logCall call this) = mModules this"
  "mSM (logCall call this) = mSM this"
  "mDataType (logCall call this) = mDataType this"
  by (simp_all add: logCall_def)

lemma findOrLoadModule_frame:
  assumes "findOrLoadModule d cubin this = (r, this1)"
  shows "mFunctions this1 = mFunctions this" and "mKernelMeta this1 = mKernelMeta this"
    and "mSM this1 = mSM this" and "mDataType this1 = mDataType this"
  using assms by (auto simp: findOrLoadModule_def logCall_def Let_def split: option.splits)

lemma findOrLoadModule_blobs_inv:
  assumes "findOrLoadModule d cubin this = (r, this1)" and "blobs_inv this"
  shows "blobs_inv this1"
proof (cases "map_of (mModules this) cubin")
  case (Some hmod)
  then show ?thesis using assms by (simp add: findOrLoadModule_def)
next
  case None
  then have new: "cubin \<notin> fst ` set (mModules this)" by (simp add: map_of_None_iff)
  then have fresh: "cubin \<notin> set (loadedBlobs (mDriverCalls this))"
    using assms(2) by (auto simp: blobs_inv_def)
  show ?thesis
    using assms None new fresh
    by (cases "cuModuleLoadData d cubin")
      (auto simp: findOrLoadModule_def logCall_def Let_def blobs_inv_def loadedBlobs_append
        map_insert_new)
qed

lemma findOrLoadModule_attribute_inv:
  assumes "findOrLoadModule d cubin this = (r, this1)"
  shows "attribute_inv this1 = attribute_inv this"
  using assms
  by (auto simp: findOrLoadModule_def logCall_def Let_def attribute_inv_def split: option.splits)

lemma setMaxDynamicSharedMem_frame:
  assumes "setMaxDynamicSharedMem d funcInfo this = (r, this1)"
  shows "mFunctions this1 = mFunctions this" and "mKernelMeta this1 = mKernelMeta this"
    and "mModules this1 = mModules this"
    and "loadedBlobs (mDriverCalls this1) = loadedBlobs (mDriverCalls this)"
  using assms
  by (auto simp: setMaxDynamicSharedMem_def logCall_def Let_def loadedBlobs_append split: if_splits)

lemma setMaxDynamicSharedMem_attribute_inv:
  assumes "setMaxDynamicSharedMem d funcInfo this = (r, this1)"
  shows "attribute_inv this1 = attribute_inv this"
  using assms
  by (auto simp: setMaxDynamicSharedMem_def logCall_def Let_def attribute_inv_def split: if_splits)

lemma setMaxDynamicSharedMem_blobs_inv:
  assumes "setMaxDynamicSharedMem d funcInfo this = (r, this1)"
  shows "blobs_inv this1 = blobs_inv this"
  using setMaxDynamicSharedMem_frame(3,4)[OF assms] by (simp add: blobs_inv_def)

lemma blobs_inv_logCall [simp]:
  "blobs_inv (logCall (ModuleGetFunction hmod name) this) = blobs_inv this"
  "blobs_inv (logCall (GetGlobalVar hmod name) this) = blobs_inv this"
  "blobs_inv (logCall (FuncSetAttribute f bytes) this) = blobs_inv this"
  by (simp_all add: blobs_inv_def logCall_def loadedBlobs_append)

lemma blobs_inv_mFunctions [simp]: "blobs_inv (this\<lparr>mFunctions := fs\<rparr>) = blobs_inv this"
  by (simp add: blobs_inv_def)

lemma attribute_inv_logCall [simp]:
  "attribute_inv (logCall (ModuleGetFunction hmod name) this) = attribute_inv this"
  "attribute_inv (logCall (GetGlobalVar hmod name) this) = attribute_inv this"
  by (auto simp: attribute_inv_def logCall_def)

lemma attribute_inv_mFunctions [simp]:
  "attribute_inv (this\<lparr>mFunctions := fs\<rparr>) = attribute_inv this"
  by (simp add: attribute_inv_def)

text \<open>
  The loop body keeps the three invariants.
\<close>

lemma loadKernel_blobs_inv:
  assumes "blobs_inv this"
  shows "blobs_inv (snd (loadKernel d i this))"
  using assms
  by (auto simp: loadKernel_def Let_def setMaxDynamicSharedMem_blobs_inv
      split: option.splits prod.splits sum.splits
      dest: findOrLoadModule_blobs_inv)

lemma loadKernel_attribute_inv:
  assumes "attribute_inv this"
  shows "attribute_inv (snd (loadKernel d i this))"
  using assms
  by (auto simp: loadKernel_def Let_def
      findOrLoadModule_attribute_inv setMaxDynamicSharedMem_attribute_inv
      split: option.splits prod.splits sum.splits)

lemma loadKernel_mKernelMeta: "mKernelMeta (snd (loadKernel d i this)) = mKernelMeta this"
  by (auto simp: loadKernel_def Let_def
      findOrLoadModule_frame(2) setMaxDynamicSharedMem_frame(2)
      split: option.splits prod.splits sum.splits)

lemma loadKernel_mFunctions:
  assumes "(key, info) \<in> set (mFunctions (snd (loadKernel d i this)))"
  shows "(key, info) \<in> set (mFunctions this)
         \<or> (mMetaInfoIndex info = i \<and> mCubin (mKernelMeta this ! i) \<noteq> None)"
  using assms
  by (auto simp: loadKernel_def Let_def
      findOrLoadModule_frame(1) setMaxDynamicSharedMem_frame(1)
      split: if_splits option.splits prod.splits sum.splits
      dest!: set_map_insert[THEN subsetD])

lemma loadKernel_functions_inv:
  assumes "functions_inv this" and "i < length (mKernelMeta this)"
  shows "functions_inv (snd (loadKernel d i this))"
  using assms loadKernel_mFunctions[of _ _ d i this]
  by (fastforce simp: functions_inv_def loadKernel_mKernelMeta)

lemma loadKernel_list_inv:
  assumes "list_inv catalog this" and "i < length catalog"
  shows "list_inv catalog (snd (loadKernel d i this))"
  using assms
  by (simp add: list_inv_def loadKernel_mKernelMeta loadKernel_blobs_inv
      loadKernel_functions_inv loadKernel_attribute_inv)

lemma loadKernels_list_inv:
  assumes "list_inv catalog this" and "\<forall>i \<in> set is. i < length catalog"
  shows "list_inv catalog (snd (loadKernels d is this))"
  using assms
proof (induction "is" arbitrary: this)
  case Nil
  then show ?case by simp
next
  case (Cons i "is")
  have step: "list_inv catalog (snd (loadKernel d i this))"
    using Cons.prems by (intro loadKernel_list_inv) simp_all
  show ?case
  proof (cases "loadKernel d i this")
    case (Pair r this1)
    then show ?thesis using step Cons.IH[of this1] Cons.prems(2)
      by (cases r) simp_all
  qed
qed

lemma loadXQAKernels_list_inv:
  assumes "list_inv catalog this"
  shows "list_inv catalog (snd (loadXQAKernels d this))"
proof -
  have "length (mKernelMeta this) = length catalog" using assms by (simp add: list_inv_def)
  then show ?thesis using assms
    by (auto simp: loadXQAKernels_def intro!: loadKernels_list_inv)
qed

lemma XQAKernelList_new_list_inv: "list_inv catalog (XQAKernelList_new catalog forceXQA type sm)"
  by (simp add: list_inv_def XQAKernelList_new_def blobs_inv_def functions_inv_def attribute_inv_def)

lemma instance_state_list_inv:
  assumes "instance_state d (XQAKernelList_new catalog forceXQA type sm) this"
  shows "list_inv catalog this"
  using assms
  by (induction rule: instance_state.induct)
    (simp_all add: XQAKernelList_new_list_inv loadXQAKernels_list_inv)

text \<open>
  A load that succeeds and leaves no function has skipped every descriptor.
\<close>

lemma loadKernel_None:
  assumes "loadKernel d i this = (None, this1)"
  shows "this1 = this \<or> mFunctions this1 \<noteq> []"
  using assms
  by (auto simp: loadKernel_def Let_def map_insert_nonempty
      split: if_splits option.splits prod.splits sum.splits)

lemma loadKernel_nonempty:
  assumes "mFunctions this \<noteq> []"
  shows "mFunctions (snd (loadKernel d i this)) \<noteq> []"
  using assms
  by (auto simp: loadKernel_def Let_def map_insert_nonempty
      findOrLoadModule_frame(1) setMaxDynamicSharedMem_frame(1)
      split: option.splits prod.splits sum.splits)

lemma loadKernels_None_empty:
  assumes "loadKernels d is this = (None, this1)" and "mFunctions this1 = []"
  shows "this1 = this"
  using assms
proof (induction "is" arbitrary: this)
  case Nil
  then show ?case by simp
next
  case (Cons i "is")
  obtain r this2 where k: "loadKernel d i this = (r, this2)" by (cases "loadKernel d i this")
  with Cons.prems(1) have r: "r = None" and rest: "loadKernels d is this2 = (None, this1)"
    by (cases r; simp)+
  from Cons.IH[OF rest Cons.prems(2)] have "this1 = this2" .
  with Cons.prems(2) have "mFunctions this2 = []" by simp
  with loadKernel_None[of d i this this2] k r have "this2 = this" by simp
  with \<open>this1 = this2\<close> show ?case by simp
qed

lemma loadXQAKernels_idempotent:
  assumes "loadXQAKernels d this = (None, this1)"
  shows "loadXQAKernels d this1 = (None, this1)"
proof (cases "mFunctions this1 = []")
  case False
  then show ?thesis by (simp add: loadXQAKernels_def)
next
  case True
  show ?thesis
  proof (cases "mFunctions this = []")
    case False
    then show ?thesis using assms by (simp add: loadXQAKernels_def)
  next
    case e: True
    then have "loadKernels d [0 ..< length (mKernelMeta this)] this = (None, this1)"
      using assms by (simp add: loadXQAKernels_def)
    from loadKernels_None_empty[OF this True] have "this1 = this" .
    then show ?thesis using assms by simp
  qed
qed

text \<open>
  Claim C5. \<open>loadXQAKernels\<close> returns at once, with no driver call and no change, when
  \<open>mFunctions\<close> is not empty; a second call after a call that returned normally
  changes nothing (same functions, same modules, no driver call); a blob whose module
  is in \<open>mModules\<close> is not loaded again; and in every state an instance can reach, no
  blob has been loaded as a module more than once.
\<close>

theorem loadXQAKernels_once:
  "(mFunctions this \<noteq> [] \<longrightarrow> loadXQAKernels d this = (None, this))
   \<and> (loadXQAKernels d this = (None, this1) \<longrightarrow> loadXQAKernels d this1 = (None, this1))
   \<and> (map_of (mModules this) cubin = Some hmod \<longrightarrow>
        findOrLoadModule d cubin this = (Inr hmod, this))
   \<and> (instance_state d (XQAKernelList_new catalog forceXQA type sm) this2 \<longrightarrow>
        distinct (loadedBlobs (mDriverCalls this2)))"
proof (intro conjI impI)
  assume "instance_state d (XQAKernelList_new catalog forceXQA type sm) this2"
  from instance_state_list_inv[OF this]
  show "distinct (loadedBlobs (mDriverCalls this2))" by (simp add: list_inv_def blobs_inv_def)
next
  assume "loadXQAKernels d this = (None, this1)"
  then show "loadXQAKernels d this1 = (None, this1)" by (rule loadXQAKernels_idempotent)
qed (simp_all add: loadXQAKernels_def findOrLoadModule_def)

text \<open>
  Claim C6. The loop body does nothing for a descriptor whose \<open>mCubin\<close> is null: no
  driver call, no error, no change of the kernel list. And in every state an instance
  can reach, each entry of \<open>mFunctions\<close> comes from a descriptor that has a blob.
\<close>

theorem null_cubin_skipped:
  "(i < length (mKernelMeta this) \<and> mCubin (mKernelMeta this ! i) = None \<longrightarrow>
      loadKernel d i this = (None, this))
   \<and> (instance_state d (XQAKernelList_new catalog forceXQA type sm) this2 \<longrightarrow>
        (\<forall>(key, info) \<in> set (mFunctions this2).
           mMetaInfoIndex info < length catalog
           \<and> mCubin (catalog ! mMetaInfoIndex info) \<noteq> None))"
proof (intro conjI impI)
  assume "instance_state d (XQAKernelList_new catalog forceXQA type sm) this2"
  from instance_state_list_inv[OF this]
  show "\<forall>(key, info) \<in> set (mFunctions this2).
           mMetaInfoIndex info < length catalog
           \<and> mCubin (catalog ! mMetaInfoIndex info) \<noteq> None"
    by (auto simp: list_inv_def functions_inv_def)
qed (simp add: loadKernel_def Let_def)

text \<open>
  Claim C8, amended. For a descriptor that is loaded, once its module, its entry point
  \<open>f\<close> and its \<open>smemSize\<close> are resolved, the loop body issues
  \<open>cuFuncSetAttribute f smemSize\<close> exactly when \<open>smemSize\<close> is at least 46 KiB (47104
  bytes; the threshold itself included), and no such call otherwise. In every state an
  instance can reach, each \<open>cuFuncSetAttribute\<close> call asked for at least 46 KiB.
\<close>

theorem shared_memory_attribute:
  "(i < length (mKernelMeta this)
    \<and> mSM_meta (mKernelMeta this ! i) = mSM this
    \<and> mDataType_meta (mKernelMeta this ! i) = mDataType this
    \<and> mCubin (mKernelMeta this ! i) = Some cubin
    \<and> findOrLoadModule d cubin this = (Inr hmod, this1)
    \<and> cuModuleGetFunction d hmod (mFuncName (mKernelMeta this ! i)) = Some f
    \<and> getGlobalVar_uint32 d hmod ''smemSize'' = Some smem
    \<longrightarrow> mDriverCalls (snd (loadKernel d i this))
          = mDriverCalls this1
            @ [ModuleGetFunction hmod (mFuncName (mKernelMeta this ! i)),
               GetGlobalVar hmod ''smemSize'', GetGlobalVar hmod ''kernelType'']
            @ (if 46 * 1024 \<le> smem then [FuncSetAttribute f smem] else []))
   \<and> (instance_state d (XQAKernelList_new catalog forceXQA type sm) this2
        \<and> FuncSetAttribute f2 bytes \<in> set (mDriverCalls this2)
        \<longrightarrow> 46 * 1024 \<le> bytes)"
proof (intro conjI impI)
  assume "instance_state d (XQAKernelList_new catalog forceXQA type sm) this2
        \<and> FuncSetAttribute f2 bytes \<in> set (mDriverCalls this2)"
  then have "attribute_inv this2" and "FuncSetAttribute f2 bytes \<in> set (mDriverCalls this2)"
    using instance_state_list_inv by (auto simp: list_inv_def)
  then show "46 * 1024 \<le> bytes" by (auto simp: attribute_inv_def)
qed (auto simp: loadKernel_def Let_def setMaxDynamicSharedMem_def logCall_def
      split: option.splits)

subsection \<open>The per-device array\<close>

text \<open>
  Claim C10. The assertion of \<open>Get\<close> admits the device ordinal 32, which is not an
  index of the 32-element array: \<open>Get\<close> reads \<open>s_factory[32]\<close>, outside the array, and
  it does so before the assertion is reached. For the ordinal 33, which the assertion
  rejects, the read outside the array comes first as well.
\<close>

theorem Get_guard_admits_out_of_bounds:
  "Get_guard 32 \<and> \<not> s_factory_in_bounds s_factory_init 32
   \<and> Get 32 s_factory_init = Inl (OutOfBounds 32)
   \<and> \<not> Get_guard 33 \<and> Get 33 s_factory_init = Inl (OutOfBounds 33)"
  by (simp add: Get_guard_def s_factory_in_bounds_def s_factory_init_def Get_def s_factory_read_def)

subsection \<open>The example\<close>

lemmas ex_defs = ex_list_def XQAKernelList_new_def ex_catalog_def ex_meta_def ex_driver_def

lemma upt5: "[0..<5] = [0,1,2,3,4]" by (simp add: upt_rec)

lemma load_ex: "loadXQAKernels ex_driver ex_list = (None,
  \<lparr>mDataType = DATA_TYPE_FP16, mKernelMeta = ex_catalog, mSM = 80,
   mModules = [(200, 2), (100, 1)], mForceXQA = False,
   mFunctions =
     [(meta_hash_key (ex_catalog ! 4), \<lparr>mMetaInfoIndex = 4, mSharedMemBytes = 47104, mDeviceFunction = 13, mKernelType = kAMPERE_WARP_SPECIALIZED\<rparr>),
      (meta_hash_key (ex_catalog ! 2), \<lparr>mMetaInfoIndex = 2, mSharedMemBytes = 20000, mDeviceFunction = 12, mKernelType = kAMPERE_WARP_SPECIALIZED\<rparr>),
      (meta_hash_key (ex_catalog ! 0), \<lparr>mMetaInfoIndex = 0, mSharedMemBytes = 20000, mDeviceFunction = 11, mKernelType = kAMPERE_WARP_SPECIALIZED\<rparr>)],
   mDriverCalls =
     [ModuleLoadData 100 (Some 1), ModuleGetFunction 1 ''kernel_mha'',
      GetGlobalVar 1 ''smemSize'', GetGlobalVar 1 ''kernelType'',
      ModuleGetFunction 1 ''kernel_spec'', GetGlobalVar 1 ''smemSize'',
      GetGlobalVar 1 ''kernelType'', ModuleLoadData 200 (Some 2),
      ModuleGetFunction 2 ''kernel_big'', GetGlobalVar 2 ''smemSize'',
      GetGlobalVar 2 ''kernelType'', FuncSetAttribute 13 47104]\<rparr>)"
  by (simp add: loadXQAKernels_def ex_defs upt5 loadKernel_def findOrLoadModule_def
      setMaxDynamicSharedMem_def logCall_def map_insert_def meta_hash_key_def Let_def)

lemma ex_loaded_value: "ex_loaded =
  \<lparr>mDataType = DATA_TYPE_FP16, mKernelMeta = ex_catalog, mSM = 80,
   mModules = [(200, 2), (100, 1)], mForceXQA = False,
   mFunctions =
     [(meta_hash_key (ex_catalog ! 4), \<lparr>mMetaInfoIndex = 4, mSharedMemBytes = 47104, mDeviceFunction = 13, mKernelType = kAMPERE_WARP_SPECIALIZED\<rparr>),
      (meta_hash_key (ex_catalog ! 2), \<lparr>mMetaInfoIndex = 2, mSharedMemBytes = 20000, mDeviceFunction = 12, mKernelType = kAMPERE_WARP_SPECIALIZED\<rparr>),
      (meta_hash_key (ex_catalog ! 0), \<lparr>mMetaInfoIndex = 0, mSharedMemBytes = 20000, mDeviceFunction = 11, mKernelType = kAMPERE_WARP_SPECIALIZED\<rparr>)],
   mDriverCalls =
     [ModuleLoadData 100 (Some 1), ModuleGetFunction 1 ''kernel_mha'',
      GetGlobalVar 1 ''smemSize'', GetGlobalVar 1 ''kernelType'',
      ModuleGetFunction 1 ''kernel_spec'', GetGlobalVar 1 ''smemSize'',
      GetGlobalVar 1 ''kernelType'', ModuleLoadData 200 (Some 2),
      ModuleGetFunction 2 ''kernel_big'', GetGlobalVar 2 ''smemSize'',
      GetGlobalVar 2 ''kernelType'', FuncSetAttribute 13 47104]\<rparr>"
  by (simp add: ex_loaded_def load_ex)

lemma ex_loaded_mFunctions: "mFunctions ex_loaded =
     [(\<lparr>kv_data_type = DATA_TYPE_FP16, key_head_size = 128, beam_size = 1,
         num_q_heads_per_kv = 2, m_tilesize = 2, tokens_per_page = 0,
         key_paged_kv_cache = False, key_multi_query_tokens = False\<rparr>,
       \<lparr>mMetaInfoIndex = 4, mSharedMemBytes = 47104, mDeviceFunction = 13, mKernelType = kAMPERE_WARP_SPECIALIZED\<rparr>),
      (\<lparr>kv_data_type = DATA_TYPE_FP16, key_head_size = 128, beam_size = 1,
         num_q_heads_per_kv = 0, m_tilesize = 16, tokens_per_page = 0,
         key_paged_kv_cache = False, key_multi_query_tokens = True\<rparr>,
       \<lparr>mMetaInfoIndex = 2, mSharedMemBytes = 20000, mDeviceFunction = 12, mKernelType = kAMPERE_WARP_SPECIALIZED\<rparr>),
      (\<lparr>kv_data_type = DATA_TYPE_FP16, key_head_size = 128, beam_size = 1,
         num_q_heads_per_kv = 8, m_tilesize = 8, tokens_per_page = 0,
         key_paged_kv_cache = False, key_multi_query_tokens = False\<rparr>,
       \<lparr>mMetaInfoIndex = 0, mSharedMemBytes = 20000, mDeviceFunction = 11, mKernelType = kAMPERE_WARP_SPECIALIZED\<rparr>)]"
  by (simp add: ex_loaded_value ex_catalog_def ex_meta_def meta_hash_key_def)

lemma ex_ratio: "int_div 32 4 = 8" "int_rem 32 4 = 0" "\<not> int_div_undefined 32 4"
  by (simp_all add: int_div_def int_rem_def int_div_undefined_def signed_divide_int_def signed_modulo_int_def)

lemma ex_run_hash_key:
  "run_hash_key ex_params =
     \<lparr>kv_data_type = DATA_TYPE_FP16, key_head_size = 128, beam_size = 1,
      num_q_heads_per_kv = 8, m_tilesize = 8, tokens_per_page = 0,
      key_paged_kv_cache = False, key_multi_query_tokens = False\<rparr>"
  by (simp add: run_hash_key_def ex_params_def ex_ratio Let_def)

lemma ex_run_hash_key_multi:
  "run_hash_key (ex_params\<lparr>multi_query_tokens := True, generation_input_length := g\<rparr>) =
     \<lparr>kv_data_type = DATA_TYPE_FP16, key_head_size = 128, beam_size = 1,
      num_q_heads_per_kv = 0, m_tilesize = (if g \<le> 16 then 16 else 32), tokens_per_page = 0,
      key_paged_kv_cache = False, key_multi_query_tokens = True\<rparr>"
  by (simp add: run_hash_key_def ex_params_def ex_ratio Let_def)

lemma ex_supportConfig_hash_key_multi:
  "supportConfig_hash_key (ex_params\<lparr>multi_query_tokens := True, generation_input_length := g\<rparr>) =
     \<lparr>kv_data_type = DATA_TYPE_FP16, key_head_size = 128, beam_size = 1,
      num_q_heads_per_kv = 0, m_tilesize = 16, tokens_per_page = 0,
      key_paged_kv_cache = False, key_multi_query_tokens = True\<rparr>"
  by (simp add: supportConfig_hash_key_def ex_params_def ex_ratio Let_def)

lemma ex_supportConfig_hash_key:
  "supportConfig_hash_key ex_params =
     \<lparr>kv_data_type = DATA_TYPE_FP16, key_head_size = 128, beam_size = 1,
      num_q_heads_per_kv = 8, m_tilesize = 8, tokens_per_page = 0,
      key_paged_kv_cache = False, key_multi_query_tokens = False\<rparr>"
  by (simp add: supportConfig_hash_key_def ex_params_def ex_ratio Let_def)

lemma ex_supportConfig: "supportConfig ex_loaded ex_params = Inr True"
  by (simp add: supportConfig_def Let_def ex_supportConfig_hash_key ex_loaded_mFunctions)
    (simp add: ex_params_def ex_ratio)

lemma ex_run: "run ex_constants ex_externals ex_loaded ex_params ex_launchParams 132 =
  Inr \<lparr>cache_type = BASE, func = 11, gridDimX = 1, gridDimY = 4,
        gridDimZ = 4, blockDimX = 128, blockDimY = 1, blockDimZ = 2,
        sharedMemBytes = 20000,
        launchKernelParams =
          [Ptr_num_k_heads, Ptr_output, Ptr_xqa_q_input_ptr,
           Ptr_kvCacheParams, Ptr_batch_size, Ptr_kv_scale_quant_orig,
           Ptr_semaphores, Ptr_scratch, Nullptr, Uninitialized,
           Uninitialized],
        scratchZeroed = False, outputConversion = False\<rparr>"
proof -
  have "run ex_constants ex_externals ex_loaded ex_params ex_launchParams 132
    = run_single_query_token ex_constants ex_externals ex_loaded
        \<lparr>mMetaInfoIndex = 0, mSharedMemBytes = 20000, mDeviceFunction = 11, mKernelType = kAMPERE_WARP_SPECIALIZED\<rparr>
        ex_params ex_launchParams 132"
    by (simp add: run_def Let_def ex_run_hash_key ex_loaded_mFunctions)
      (simp add: ex_params_def ex_ratio)
  also have "\<dots> = Inr \<lparr>cache_type = BASE, func = 11, gridDimX = 1, gridDimY = 4,
        gridDimZ = 4, blockDimX = 128, blockDimY = 1, blockDimZ = 2,
        sharedMemBytes = 20000,
        launchKernelParams =
          [Ptr_num_k_heads, Ptr_output, Ptr_xqa_q_input_ptr,
           Ptr_kvCacheParams, Ptr_batch_size, Ptr_kv_scale_quant_orig,
           Ptr_semaphores, Ptr_scratch, Nullptr, Uninitialized,
           Uninitialized],
        scratchZeroed = False, outputConversion = False\<rparr>"
    by (simp add: run_single_query_token_def buildKernelParams_value Let_def ex_loaded_value
        ex_constants_def ex_params_def ex_launchParams_def ex_externals_def kv_cache_type_def
        numeral_eq_Suc)
  finally show ?thesis .
qed

lemma ex_supportConfig_multi:
  "supportConfig ex_loaded (ex_params\<lparr>multi_query_tokens := True, generation_input_length := g\<rparr>) = Inr True"
  by (simp add: supportConfig_def Let_def ex_supportConfig_hash_key_multi ex_loaded_mFunctions)
    (simp add: ex_params_def ex_ratio)

lemma ex_run_multi_17:
  "run ex_constants ex_externals ex_loaded
     (ex_params\<lparr>multi_query_tokens := True, generation_input_length := 17\<rparr>) ex_launchParams 132
   = Inl (CheckFailed ''XQAKernelFunc not found.'')"
  by (simp add: run_def Let_def ex_run_hash_key_multi ex_loaded_mFunctions)
    (simp add: ex_params_def ex_ratio)

lemma ex_params_spec_heads:
  "multi_query_tokens ex_params_spec"
  "\<not> int_div_undefined (num_q_heads ex_params_spec) (num_kv_heads ex_params_spec)"
  "int_rem (num_q_heads ex_params_spec) (num_kv_heads ex_params_spec) = 0"
  by (simp_all add: ex_params_spec_def ex_params_def ex_ratio)

lemma ex_params_spec_lookup:
  "map_of (mFunctions ex_loaded) (run_hash_key ex_params_spec)
     = Some \<lparr>mMetaInfoIndex = 2, mSharedMemBytes = 20000, mDeviceFunction = 12,
              mKernelType = kAMPERE_WARP_SPECIALIZED\<rparr>"
  by (simp add: ex_loaded_mFunctions run_hash_key_def Let_def ex_params_spec_def ex_params_def ex_ratio)

lemma ex_instance: "instance_state ex_driver ex_list ex_loaded"
  unfolding ex_loaded_def by (intro instance_state.intros)

lemma ex_loaded_blobs: "loadedBlobs (mDriverCalls ex_loaded) = [100, 200]"
  by (simp add: ex_loaded_value)

lemma ex_findOrLoadModule_100:
  "findOrLoadModule ex_driver 100 ex_list
     = (Inr 1, ex_list\<lparr>mModules := [(100, 1)], mDriverCalls := [ModuleLoadData 100 (Some 1)]\<rparr>)"
  by (simp add: findOrLoadModule_def ex_list_def XQAKernelList_new_def ex_driver_def logCall_def
      map_insert_def Let_def)

lemma ex_findOrLoadModule_200:
  "findOrLoadModule ex_driver 200 ex_list
     = (Inr 2, ex_list\<lparr>mModules := [(200, 2)], mDriverCalls := [ModuleLoadData 200 (Some 2)]\<rparr>)"
  by (simp add: findOrLoadModule_def ex_list_def XQAKernelList_new_def ex_driver_def logCall_def
      map_insert_def Let_def)

lemma ex_descriptor_0:
  "0 < length (mKernelMeta ex_list)
   \<and> mSM_meta (mKernelMeta ex_list ! 0) = mSM ex_list
   \<and> mDataType_meta (mKernelMeta ex_list ! 0) = mDataType ex_list
   \<and> mCubin (mKernelMeta ex_list ! 0) = Some 100
   \<and> mFuncName (mKernelMeta ex_list ! 0) = ''kernel_mha''"
  by (simp add: ex_list_def XQAKernelList_new_def ex_catalog_def ex_meta_def)

lemma ex_descriptor_4:
  "4 < length (mKernelMeta ex_list)
   \<and> mSM_meta (mKernelMeta ex_list ! 4) = mSM ex_list
   \<and> mDataType_meta (mKernelMeta ex_list ! 4) = mDataType ex_list
   \<and> mCubin (mKernelMeta ex_list ! 4) = Some 200
   \<and> mFuncName (mKernelMeta ex_list ! 4) = ''kernel_big''"
  by (simp add: ex_list_def XQAKernelList_new_def ex_catalog_def ex_meta_def)

lemma ex_driver_values:
  "cuModuleGetFunction ex_driver 1 ''kernel_mha'' = Some 11"
  "cuModuleGetFunction ex_driver 2 ''kernel_big'' = Some 13"
  "getGlobalVar_uint32 ex_driver 1 ''smemSize'' = Some 20000"
  "getGlobalVar_uint32 ex_driver 2 ''smemSize'' = Some 47104"
  by (simp_all add: ex_driver_def)

lemmas ex_defs_b = XQAKernelList_new_def ex_catalog_b_def ex_meta_def ex_driver_b_def

lemma upt2: "[0..<2] = [0, 1]" by (simp add: upt_rec)

lemma ex_loaded_beam_value:
  "mSM ex_loaded_beam = 80 \<and> mFunctions ex_loaded_beam =
      [(\<lparr>kv_data_type = DATA_TYPE_FP16, key_head_size = 128, beam_size = 4,
          num_q_heads_per_kv = 8, m_tilesize = 8, tokens_per_page = 0,
          key_paged_kv_cache = False, key_multi_query_tokens = False\<rparr>,
        \<lparr>mMetaInfoIndex = 0, mSharedMemBytes = 30000, mDeviceFunction = 14,
          mKernelType = kAMPERE_WARP_SPECIALIZED\<rparr>)]"
  by (simp add: ex_loaded_beam_def loadXQAKernels_def ex_defs_b upt2 loadKernel_def
      findOrLoadModule_def setMaxDynamicSharedMem_def logCall_def map_insert_def
      meta_hash_key_def Let_def)

lemma ex_loaded_sm90_value:
  "mSM ex_loaded_sm90 = 90 \<and> mFunctions ex_loaded_sm90 =
      [(\<lparr>kv_data_type = DATA_TYPE_E4M3, key_head_size = 128, beam_size = 1,
          num_q_heads_per_kv = 8, m_tilesize = 8, tokens_per_page = 0,
          key_paged_kv_cache = False, key_multi_query_tokens = False\<rparr>,
        \<lparr>mMetaInfoIndex = 1, mSharedMemBytes = 30000, mDeviceFunction = 15,
          mKernelType = kHOPPER_WARP_SPECIALIZED\<rparr>)]"
  by (simp add: ex_loaded_sm90_def loadXQAKernels_def ex_defs_b upt2 loadKernel_def
      findOrLoadModule_def setMaxDynamicSharedMem_def logCall_def map_insert_def
      meta_hash_key_def Let_def)

lemma ex_params_beam_facts:
  "\<not> multi_query_tokens ex_params_beam"
  "\<not> int_div_undefined (num_q_heads ex_params_beam) (num_kv_heads ex_params_beam)"
  "int_rem (num_q_heads ex_params_beam) (num_kv_heads ex_params_beam) = 0"
  "1 <s beam_width ex_params_beam"
  "beam_width ex_params_beam \<noteq> 1"
  "map_of (mFunctions ex_loaded_beam) (run_hash_key ex_params_beam)
     = Some \<lparr>mMetaInfoIndex = 0, mSharedMemBytes = 30000, mDeviceFunction = 14,
          mKernelType = kAMPERE_WARP_SPECIALIZED\<rparr>"
  "beamSearchParams ex_launchParams_beam \<noteq> None"
  by (simp_all add: ex_params_beam_def ex_params_def ex_ratio word_sless_alt
      ex_loaded_beam_value run_hash_key_def Let_def ex_launchParams_beam_def)

lemma ex_params_gmma_facts:
  "\<not> multi_query_tokens ex_params_gmma"
  "\<not> int_div_undefined (num_q_heads ex_params_gmma) (num_kv_heads ex_params_gmma)"
  "int_rem (num_q_heads ex_params_gmma) (num_kv_heads ex_params_gmma) = 0"
  "\<not> 1 <s beam_width ex_params_gmma"
  "beam_width ex_params_gmma = 1"
  "kv_cache_data_type ex_params_gmma = DATA_TYPE_E4M3"
  "map_of (mFunctions ex_loaded_sm90) (run_hash_key ex_params_gmma)
     = Some \<lparr>mMetaInfoIndex = 1, mSharedMemBytes = 30000, mDeviceFunction = 15,
          mKernelType = kHOPPER_WARP_SPECIALIZED\<rparr>"
  "mSM ex_loaded_sm90 = kSM_90 ex_constants"
  by (simp_all add: ex_params_gmma_def ex_params_def ex_ratio word_sless_alt
      ex_loaded_sm90_value run_hash_key_def Let_def ex_constants_def)

lemma ex_params_facts:
  "\<not> multi_query_tokens ex_params"
  "\<not> int_div_undefined (num_q_heads ex_params) (num_kv_heads ex_params)"
  "int_rem (num_q_heads ex_params) (num_kv_heads ex_params) = 0"
  "\<not> 1 <s beam_width ex_params"
  "kv_cache_data_type ex_params \<noteq> DATA_TYPE_E4M3"
  "map_of (mFunctions ex_loaded) (run_hash_key ex_params)
     = Some \<lparr>mMetaInfoIndex = 0, mSharedMemBytes = 20000, mDeviceFunction = 11,
          mKernelType = kAMPERE_WARP_SPECIALIZED\<rparr>"
  by (simp_all add: ex_params_def ex_ratio word_sless_alt
      ex_loaded_mFunctions run_hash_key_def Let_def)

text \<open>
  A request with 30 query heads and 4 KV heads fails the check.
\<close>

theorem head_count_check_witness:
  "num_kv_heads (ex_params\<lparr>num_q_heads := 30\<rparr>) \<noteq> 0
   \<and> \<not> sint (num_kv_heads (ex_params\<lparr>num_q_heads := 30\<rparr>))
         dvd sint (num_q_heads (ex_params\<lparr>num_q_heads := 30\<rparr>))
   \<and> supportConfig ex_list (ex_params\<lparr>num_q_heads := 30\<rparr>)
       = Inl (CheckFailed ''numQHeads should be multiple of numKVHeads.'')
   \<and> run ex_constants ex_externals ex_list (ex_params\<lparr>num_q_heads := 30\<rparr>) ex_launchParams 132
       = Inl (CheckFailed ''numQHeads should be multiple of numKVHeads.'')"
proof -
  have a: "num_kv_heads (ex_params\<lparr>num_q_heads := 30\<rparr>) \<noteq> 0" by (simp add: ex_params_def)
  have b: "\<not> sint (num_kv_heads (ex_params\<lparr>num_q_heads := 30\<rparr>))
         dvd sint (num_q_heads (ex_params\<lparr>num_q_heads := 30\<rparr>))" by (simp add: ex_params_def)
  show ?thesis using a b head_count_check[OF a b] by blast
qed

text \<open>
  The claim C7 as stated fails for a request with 5 query heads and no KV head: 5 is
  not a multiple of 0, and neither function reaches its check.
\<close>

theorem head_count_check_counterexample:
  "\<not> sint (num_kv_heads (ex_params\<lparr>num_q_heads := 5, num_kv_heads := 0\<rparr>))
       dvd sint (num_q_heads (ex_params\<lparr>num_q_heads := 5, num_kv_heads := 0\<rparr>))
   \<and> supportConfig ex_list (ex_params\<lparr>num_q_heads := 5, num_kv_heads := 0\<rparr>)
       = Inl UndefinedDivision
   \<and> supportConfig ex_list (ex_params\<lparr>num_q_heads := 5, num_kv_heads := 0\<rparr>)
       \<noteq> Inl (CheckFailed ''numQHeads should be multiple of numKVHeads.'')
   \<and> run ex_constants ex_externals ex_list
         (ex_params\<lparr>num_q_heads := 5, num_kv_heads := 0\<rparr>) ex_launchParams 132
       = Inl UndefinedDivision
   \<and> run ex_constants ex_externals ex_list
         (ex_params\<lparr>num_q_heads := 5, num_kv_heads := 0\<rparr>) ex_launchParams 132
       \<noteq> Inl (CheckFailed ''numQHeads should be multiple of numKVHeads.'')"
  by (simp add: supportConfig_def run_def Let_def int_div_undefined_def ex_params_def)

text \<open>
  The keys of a multi-token request of 17 tokens and of the single-token example
  request with ratio 8.
\<close>

theorem run_hash_key_fields_witness:
  "multi_query_tokens (ex_params\<lparr>multi_query_tokens := True, generation_input_length := 17\<rparr>)
   \<and> num_q_heads_per_kv
        (run_hash_key (ex_params\<lparr>multi_query_tokens := True, generation_input_length := 17\<rparr>)) = 0
   \<and> m_tilesize
        (run_hash_key (ex_params\<lparr>multi_query_tokens := True, generation_input_length := 17\<rparr>)) = 32
   \<and> \<not> multi_query_tokens ex_params
   \<and> num_q_heads_per_kv (run_hash_key ex_params) = 8
   \<and> m_tilesize (run_hash_key ex_params) = 8
   \<and> run_hash_key (ex_params\<lparr>generation_input_length := 17\<rparr>) = run_hash_key ex_params
   \<and> (\<exists>l info. run ex_constants ex_externals ex_loaded ex_params ex_launchParams 132 = Inr l
         \<and> map_of (mFunctions ex_loaded) (run_hash_key ex_params) = Some info
         \<and> func l = mDeviceFunction info)"
proof -
  let ?pm = "ex_params\<lparr>multi_query_tokens := True, generation_input_length := 17\<rparr>"
  have m: "multi_query_tokens ?pm" by simp
  have s: "\<not> multi_query_tokens ex_params" by (simp add: ex_params_def)
  have g: "\<not> generation_input_length ?pm \<le> 16" by simp
  have q: "word_of_int (sint (num_q_heads ex_params) sdiv sint (num_kv_heads ex_params))
      = (8 :: 32 word)"
    by (simp add: ex_params_def signed_divide_int_def)
  note t1 = run_hash_key_fields[where p = ?pm, THEN conjunct1, rule_format, OF m]
  note t2 = run_hash_key_fields[where p = ex_params and g = 17, THEN conjunct2, THEN conjunct1,
      rule_format, OF s]
  note t3 = run_hash_key_fields[where p = ex_params, THEN conjunct2, THEN conjunct2,
      rule_format, OF ex_run]
  have a: "num_q_heads_per_kv (run_hash_key ?pm) = 0" using t1 by simp
  have b: "m_tilesize (run_hash_key ?pm) = 32" using t1 g by simp
  have c: "num_q_heads_per_kv (run_hash_key ex_params) = 8" using t2 q by simp
  have d: "m_tilesize (run_hash_key ex_params) = 8" using t2 q by simp
  have e: "run_hash_key (ex_params\<lparr>generation_input_length := 17\<rparr>) = run_hash_key ex_params"
    using t2 by simp
  show ?thesis using m s a b c d e t3 ex_run by blast
qed

theorem hash_key_agreement_witness:
  "supportConfig_hash_key ex_params = run_hash_key ex_params
   \<and> supportConfig ex_loaded ex_params = Inr True
   \<and> map_of (mFunctions ex_loaded) (run_hash_key ex_params) \<noteq> None
   \<and> supportConfig_hash_key (ex_params\<lparr>multi_query_tokens := True, generation_input_length := 16\<rparr>)
       = run_hash_key (ex_params\<lparr>multi_query_tokens := True, generation_input_length := 16\<rparr>)"
proof -
  let ?p16 = "ex_params\<lparr>multi_query_tokens := True, generation_input_length := 16\<rparr>"
  have s: "\<not> multi_query_tokens ex_params" by (simp add: ex_params_def)
  have g: "generation_input_length ?p16 \<le> 16" by simp
  note k1 = hash_key_agreement[where p = ex_params, THEN conjunct1]
  note k2 = hash_key_agreement[where p = ?p16, THEN conjunct1]
  note k3 = hash_key_agreement[where p = ex_params and this = ex_loaded, THEN conjunct2, rule_format]
  show ?thesis using s g k1 k2 k3 ex_supportConfig by blast
qed

text \<open>
  The claim C4 as stated fails for a multi-token request of 17 tokens: the two keys
  differ in the tile size (16 and 32), \<open>supportConfig\<close> reports support because the
  tile-16 kernel is loaded, and \<open>run\<close> fails because no tile-32 kernel is.
\<close>

theorem hash_key_agreement_counterexample:
  "supportConfig_hash_key (ex_params\<lparr>multi_query_tokens := True, generation_input_length := 17\<rparr>)
     \<noteq> run_hash_key (ex_params\<lparr>multi_query_tokens := True, generation_input_length := 17\<rparr>)
   \<and> supportConfig ex_loaded
        (ex_params\<lparr>multi_query_tokens := True, generation_input_length := 17\<rparr>) = Inr True
   \<and> run ex_constants ex_externals ex_loaded
        (ex_params\<lparr>multi_query_tokens := True, generation_input_length := 17\<rparr>) ex_launchParams 132
       = Inl (CheckFailed ''XQAKernelFunc not found.'')"
  by (simp add: ex_supportConfig_multi ex_run_multi_17 ex_supportConfig_hash_key_multi
      ex_run_hash_key_multi)

text \<open>
  The array builder with both optional arguments (11 entries), and three launches of
  \<open>run\<close>: the example request (9 entries), a request with beam width 4 (10 entries,
  with the beam-search parameters) and a request for the SM 90 kernel with an
  8-bit-float KV cache (10 entries, with the tensor map).
\<close>

theorem single_token_kernelParams_witness:
  "buildKernelParams True (ex_params\<lparr>beam_width := 4\<rparr>) \<lparr>beamSearchParams = Some 0\<rparr>
     = Inr (10, [Ptr_num_k_heads, Ptr_output, Ptr_xqa_q_input_ptr, Ptr_kvCacheParams,
                 Ptr_beamSearchParams, Ptr_batch_size, Ptr_kv_scale_quant_orig,
                 Ptr_tensorMap, Ptr_semaphores, Ptr_scratch, Nullptr])
   \<and> (10::nat) + 1 = 9 + 1 + 1
   \<and> \<not> 1 <s beam_width ex_params
   \<and> (\<exists>st. buildKernelParams False ex_params ex_launchParams = Inr st)
   \<and> \<not> multi_query_tokens ex_params
   \<and> (\<exists>l info idx.
         run ex_constants ex_externals ex_loaded ex_params ex_launchParams 132 = Inr l
         \<and> map_of (mFunctions ex_loaded) (run_hash_key ex_params) = Some info
         \<and> buildKernelParams (mKernelType info = kHOPPER_WARP_SPECIALIZED) ex_params
               ex_launchParams = Inr (idx, launchKernelParams l))
   \<and> (\<exists>l. run ex_constants ex_externals ex_loaded ex_params ex_launchParams 132 = Inr l
         \<and> func l = 11
         \<and> launchKernelParams l
             = [Ptr_num_k_heads, Ptr_output, Ptr_xqa_q_input_ptr, Ptr_kvCacheParams,
                Ptr_batch_size, Ptr_kv_scale_quant_orig, Ptr_semaphores, Ptr_scratch,
                Nullptr, Uninitialized, Uninitialized])
   \<and> (\<exists>l. run ex_constants ex_externals ex_loaded_beam ex_params_beam ex_launchParams_beam 132
             = Inr l
         \<and> func l = 14
         \<and> launchKernelParams l
             = [Ptr_num_k_heads, Ptr_output, Ptr_xqa_q_input_ptr, Ptr_kvCacheParams,
                Ptr_beamSearchParams, Ptr_batch_size, Ptr_kv_scale_quant_orig,
                Ptr_semaphores, Ptr_scratch, Nullptr, Uninitialized])
   \<and> (\<exists>l. run ex_constants ex_externals ex_loaded_sm90 ex_params_gmma ex_launchParams 132
             = Inr l
         \<and> func l = 15
         \<and> launchKernelParams l
             = [Ptr_num_k_heads, Ptr_output, Ptr_xqa_q_input_ptr, Ptr_kvCacheParams,
                Ptr_batch_size, Ptr_kv_scale_quant_orig, Ptr_tensorMap,
                Ptr_semaphores, Ptr_scratch, Nullptr, Uninitialized])
   \<and> mKernelType \<lparr>mMetaInfoIndex = 1, mSharedMemBytes = 30000, mDeviceFunction = 15,
          mKernelType = kHOPPER_WARP_SPECIALIZED\<rparr> = kHOPPER_WARP_SPECIALIZED
   \<and> \<not> 1 <s beam_width ex_params_gmma"
proof -
  let ?p = "ex_params\<lparr>beam_width := 4\<rparr>"
  let ?lp = "\<lparr>beamSearchParams = Some 0\<rparr> :: XQALaunchParam"
  let ?arr = "[Ptr_num_k_heads, Ptr_output, Ptr_xqa_q_input_ptr, Ptr_kvCacheParams,
                 Ptr_beamSearchParams, Ptr_batch_size, Ptr_kv_scale_quant_orig,
                 Ptr_tensorMap, Ptr_semaphores, Ptr_scratch, Nullptr]"
  have w: "1 <s beam_width ?p" by (simp add: word_sless_alt)
  have v: "buildKernelParams True ?p ?lp = Inr (10, ?arr)"
    using w by (simp add: buildKernelParams_value)
  have n: "(10::nat) + 1 = 9 + 1 + 1"
    using single_token_kernelParams[where isGmmaKernel = True and p = ?p and lp = ?lp,
        THEN conjunct1, rule_format, OF v] w
    by simp
  have b1: "\<not> 1 <s beam_width ex_params" by (simp add: ex_params_def word_sless_alt)
  have e: "\<exists>st. buildKernelParams False ex_params ex_launchParams = Inr st"
    using single_token_kernelParams[where isGmmaKernel = False and p = ex_params
        and lp = ex_launchParams, THEN conjunct2, THEN conjunct1, rule_format] b1
    by blast
  have s: "\<not> multi_query_tokens ex_params" by (simp add: ex_params_def)
  have r: "\<exists>info idx.
         map_of (mFunctions ex_loaded) (run_hash_key ex_params) = Some info
         \<and> buildKernelParams (mKernelType info = kHOPPER_WARP_SPECIALIZED) ex_params
               ex_launchParams = Inr (idx, launchKernelParams
                 \<lparr>cache_type = BASE, func = 11, gridDimX = 1, gridDimY = 4,
        gridDimZ = 4, blockDimX = 128, blockDimY = 1, blockDimZ = 2,
        sharedMemBytes = 20000,
        launchKernelParams =
          [Ptr_num_k_heads, Ptr_output, Ptr_xqa_q_input_ptr,
           Ptr_kvCacheParams, Ptr_batch_size, Ptr_kv_scale_quant_orig,
           Ptr_semaphores, Ptr_scratch, Nullptr, Uninitialized,
           Uninitialized],
        scratchZeroed = False, outputConversion = False\<rparr>)"
    using single_token_kernelParams[where p = ex_params and lp = ex_launchParams
        and this = ex_loaded and c = ex_constants and ext = ex_externals and w = 132,
        THEN conjunct2, THEN conjunct2, THEN conjunct1, rule_format] s ex_run
    by blast
  have p9: "\<exists>l. run ex_constants ex_externals ex_loaded ex_params ex_launchParams 132 = Inr l
         \<and> func l = 11
         \<and> launchKernelParams l
             = [Ptr_num_k_heads, Ptr_output, Ptr_xqa_q_input_ptr, Ptr_kvCacheParams,
                Ptr_batch_size, Ptr_kv_scale_quant_orig, Ptr_semaphores, Ptr_scratch,
                Nullptr, Uninitialized, Uninitialized]"
    using single_token_kernelParams[where p = ex_params and lp = ex_launchParams
        and this = ex_loaded and c = ex_constants and ext = ex_externals and w = 132
        and info = "\<lparr>mMetaInfoIndex = 0, mSharedMemBytes = 20000, mDeviceFunction = 11,
          mKernelType = kAMPERE_WARP_SPECIALIZED\<rparr>",
        THEN conjunct2, THEN conjunct2, THEN conjunct2, THEN conjunct1, rule_format]
      ex_params_facts
    by (simp add: numeral_eq_Suc)
  have p10b: "\<exists>l. run ex_constants ex_externals ex_loaded_beam ex_params_beam
               ex_launchParams_beam 132 = Inr l
         \<and> func l = 14
         \<and> launchKernelParams l
             = [Ptr_num_k_heads, Ptr_output, Ptr_xqa_q_input_ptr, Ptr_kvCacheParams,
                Ptr_beamSearchParams, Ptr_batch_size, Ptr_kv_scale_quant_orig,
                Ptr_semaphores, Ptr_scratch, Nullptr, Uninitialized]"
    using single_token_kernelParams[where p = ex_params_beam and lp = ex_launchParams_beam
        and this = ex_loaded_beam and c = ex_constants and ext = ex_externals and w = 132
        and info = "\<lparr>mMetaInfoIndex = 0, mSharedMemBytes = 30000, mDeviceFunction = 14,
          mKernelType = kAMPERE_WARP_SPECIALIZED\<rparr>",
        THEN conjunct2, THEN conjunct2, THEN conjunct2, THEN conjunct1, rule_format]
      ex_params_beam_facts
    by (simp add: numeral_eq_Suc)
  have p10g: "\<exists>l. run ex_constants ex_externals ex_loaded_sm90 ex_params_gmma
               ex_launchParams 132 = Inr l
         \<and> func l = 15
         \<and> launchKernelParams l
             = [Ptr_num_k_heads, Ptr_output, Ptr_xqa_q_input_ptr, Ptr_kvCacheParams,
                Ptr_batch_size, Ptr_kv_scale_quant_orig, Ptr_tensorMap,
                Ptr_semaphores, Ptr_scratch, Nullptr, Uninitialized]"
    using single_token_kernelParams[where p = ex_params_gmma and lp = ex_launchParams
        and this = ex_loaded_sm90 and c = ex_constants and ext = ex_externals and w = 132
        and info = "\<lparr>mMetaInfoIndex = 1, mSharedMemBytes = 30000, mDeviceFunction = 15,
          mKernelType = kHOPPER_WARP_SPECIALIZED\<rparr>",
        THEN conjunct2, THEN conjunct2, THEN conjunct2, THEN conjunct1, rule_format]
      ex_params_gmma_facts
    by (simp add: numeral_eq_Suc)
  have g: "\<not> 1 <s beam_width ex_params_gmma"
  proof -
    from p10g obtain l where
      "run ex_constants ex_externals ex_loaded_sm90 ex_params_gmma ex_launchParams 132 = Inr l"
      by blast
    then show ?thesis
      using single_token_kernelParams[where p = ex_params_gmma and lp = ex_launchParams
          and this = ex_loaded_sm90 and c = ex_constants and ext = ex_externals and w = 132
          and l = l
          and info = "\<lparr>mMetaInfoIndex = 1, mSharedMemBytes = 30000, mDeviceFunction = 15,
            mKernelType = kHOPPER_WARP_SPECIALIZED\<rparr>",
          THEN conjunct2, THEN conjunct2, THEN conjunct2, THEN conjunct2, rule_format]
        ex_params_gmma_facts
      by simp
  qed
  have t: "mKernelType \<lparr>mMetaInfoIndex = 1, mSharedMemBytes = 30000, mDeviceFunction = 15,
          mKernelType = kHOPPER_WARP_SPECIALIZED\<rparr> = kHOPPER_WARP_SPECIALIZED" by simp
  show ?thesis using v n b1 e s r ex_run p9 p10b p10g g t by blast
qed

theorem multi_token_dequant_scale_witness:
  "multi_query_tokens ex_params_spec
   \<and> hasInt8KvCache (kv_cache_quant_mode ex_params_spec)
   \<and> (\<exists>l. run ex_constants ex_externals ex_loaded ex_params_spec ex_launchParams 132 = Inr l
         \<and> cache_type l = INT8
         \<and> length (launchKernelParams l) = 10
         \<and> launchKernelParams l ! 8 = Ptr_kvCacheQuantOrig 1
         \<and> Ptr_kv_scale_quant_orig \<notin> set (launchKernelParams l))"
proof -
  let ?l = "run_multi_query_tokens ex_externals
      \<lparr>mMetaInfoIndex = 2, mSharedMemBytes = 20000, mDeviceFunction = 12,
        mKernelType = kAMPERE_WARP_SPECIALIZED\<rparr> ex_params_spec 132"
  have r: "run ex_constants ex_externals ex_loaded ex_params_spec ex_launchParams 132 = Inr ?l"
    using multi_token_dequant_scale[where p = ex_params_spec and this = ex_loaded,
        THEN conjunct2, rule_format] ex_params_spec_heads ex_params_spec_lookup
    by blast
  have p: "length (launchKernelParams ?l) = 10
      \<and> launchKernelParams ?l ! 8 = Ptr_kvCacheQuantOrig 1
      \<and> Ptr_kv_scale_quant_orig \<notin> set (launchKernelParams ?l)"
    using multi_token_dequant_scale[where p = ex_params_spec and this = ex_loaded,
        THEN conjunct1, rule_format] ex_params_spec_heads(1) r
    by blast
  have q: "hasInt8KvCache (kv_cache_quant_mode ex_params_spec)"
    by (simp add: ex_params_spec_def)
  have c: "cache_type ?l = INT8"
    by (simp add: run_multi_query_tokens_def Let_def kv_cache_type_def ex_params_spec_def)
  show ?thesis using ex_params_spec_heads(1) q r p c by blast
qed

theorem loadXQAKernels_once_witness:
  "loadXQAKernels ex_driver ex_list = (None, ex_loaded)
   \<and> mFunctions ex_loaded \<noteq> []
   \<and> loadXQAKernels ex_driver ex_loaded = (None, ex_loaded)
   \<and> map_of (mModules ex_loaded) 100 = Some 1
   \<and> findOrLoadModule ex_driver 100 ex_loaded = (Inr 1, ex_loaded)
   \<and> instance_state ex_driver (XQAKernelList_new ex_catalog False DATA_TYPE_FP16 80) ex_loaded
   \<and> distinct (loadedBlobs (mDriverCalls ex_loaded))"
proof -
  have l: "loadXQAKernels ex_driver ex_list = (None, ex_loaded)"
    by (simp add: load_ex ex_loaded_value)
  have n: "mFunctions ex_loaded \<noteq> []" by (simp add: ex_loaded_mFunctions)
  have m: "map_of (mModules ex_loaded) 100 = Some 1" by (simp add: ex_loaded_value)
  have i: "instance_state ex_driver (XQAKernelList_new ex_catalog False DATA_TYPE_FP16 80) ex_loaded"
    using ex_instance by (simp add: ex_list_def)
  note t = loadXQAKernels_once[where d = ex_driver and this = ex_list and ?this1.0 = ex_loaded
      and ?this2.0 = ex_loaded and catalog = ex_catalog and forceXQA = False
      and type = DATA_TYPE_FP16 and sm = 80]
  note u = loadXQAKernels_once[where d = ex_driver and this = ex_loaded and cubin = 100
      and hmod = 1]
  show ?thesis using l n m i t u by blast
qed

theorem null_cubin_skipped_witness:
  "1 < length (mKernelMeta ex_list) \<and> mCubin (mKernelMeta ex_list ! 1) = None
   \<and> loadKernel ex_driver 1 ex_list = (None, ex_list)
   \<and> instance_state ex_driver (XQAKernelList_new ex_catalog False DATA_TYPE_FP16 80) ex_loaded
   \<and> map (\<lambda>(key, info). mMetaInfoIndex info) (mFunctions ex_loaded) = [4, 2, 0]
   \<and> list_all (\<lambda>(key, info). mMetaInfoIndex info < length ex_catalog
         \<and> mCubin (ex_catalog ! mMetaInfoIndex info) \<noteq> None) (mFunctions ex_loaded)"
proof -
  have a: "1 < length (mKernelMeta ex_list) \<and> mCubin (mKernelMeta ex_list ! 1) = None"
    by (simp add: ex_list_def XQAKernelList_new_def ex_catalog_def ex_meta_def)
  have i: "instance_state ex_driver (XQAKernelList_new ex_catalog False DATA_TYPE_FP16 80) ex_loaded"
    using ex_instance by (simp add: ex_list_def)
  have m: "map (\<lambda>(key, info). mMetaInfoIndex info) (mFunctions ex_loaded) = [4, 2, 0]"
    by (simp add: ex_loaded_mFunctions)
  note t = null_cubin_skipped[where d = ex_driver and this = ex_list and i = 1
      and ?this2.0 = ex_loaded and catalog = ex_catalog and forceXQA = False
      and type = DATA_TYPE_FP16 and sm = 80]
  have b: "\<forall>(key, info) \<in> set (mFunctions ex_loaded).
         mMetaInfoIndex info < length ex_catalog
         \<and> mCubin (ex_catalog ! mMetaInfoIndex info) \<noteq> None"
    using t i by blast
  have c: "list_all (\<lambda>(key, info). mMetaInfoIndex info < length ex_catalog
         \<and> mCubin (ex_catalog ! mMetaInfoIndex info) \<noteq> None) (mFunctions ex_loaded)"
    using b by (simp only: list_all_iff)
  show ?thesis using a i m t c by blast
qed

theorem shared_memory_attribute_witness:
  "getGlobalVar_uint32 ex_driver 1 ''smemSize'' = Some 20000
   \<and> mDriverCalls (snd (loadKernel ex_driver 0 ex_list))
       = [ModuleLoadData 100 (Some 1), ModuleGetFunction 1 ''kernel_mha'',
          GetGlobalVar 1 ''smemSize'', GetGlobalVar 1 ''kernelType'']
   \<and> getGlobalVar_uint32 ex_driver 2 ''smemSize'' = Some 47104
   \<and> mDriverCalls (snd (loadKernel ex_driver 4 ex_list))
       = [ModuleLoadData 200 (Some 2), ModuleGetFunction 2 ''kernel_big'',
          GetGlobalVar 2 ''smemSize'', GetGlobalVar 2 ''kernelType'',
          FuncSetAttribute 13 47104]
   \<and> FuncSetAttribute 13 47104 \<in> set (mDriverCalls ex_loaded)
   \<and> (46 * 1024 :: 32 word) \<le> 47104"
proof -
  have a: "mDriverCalls (snd (loadKernel ex_driver 0 ex_list))
       = [ModuleLoadData 100 (Some 1), ModuleGetFunction 1 ''kernel_mha'',
          GetGlobalVar 1 ''smemSize'', GetGlobalVar 1 ''kernelType'']"
    using shared_memory_attribute[where d = ex_driver and this = ex_list and i = 0
        and cubin = 100 and hmod = 1 and f = 11 and smem = 20000,
        THEN conjunct1, rule_format]
      ex_descriptor_0 ex_findOrLoadModule_100 ex_driver_values
    by simp
  have b: "mDriverCalls (snd (loadKernel ex_driver 4 ex_list))
       = [ModuleLoadData 200 (Some 2), ModuleGetFunction 2 ''kernel_big'',
          GetGlobalVar 2 ''smemSize'', GetGlobalVar 2 ''kernelType'',
          FuncSetAttribute 13 47104]"
    using shared_memory_attribute[where d = ex_driver and this = ex_list and i = 4
        and cubin = 200 and hmod = 2 and f = 13 and smem = 47104,
        THEN conjunct1, rule_format]
      ex_descriptor_4 ex_findOrLoadModule_200 ex_driver_values
    by simp
  have i: "instance_state ex_driver (XQAKernelList_new ex_catalog False DATA_TYPE_FP16 80) ex_loaded"
    using ex_instance by (simp add: ex_list_def)
  have m: "FuncSetAttribute 13 47104 \<in> set (mDriverCalls ex_loaded)"
    by (simp add: ex_loaded_value)
  have c: "(46 * 1024 :: 32 word) \<le> 47104"
    using shared_memory_attribute[where d = ex_driver and ?this2.0 = ex_loaded
        and catalog = ex_catalog and forceXQA = False and type = DATA_TYPE_FP16 and sm = 80
        and ?f2.0 = 13 and bytes = 47104, THEN conjunct2, rule_format] i m
    by blast
  show ?thesis using a b m c ex_driver_values by blast
qed

text \<open>
  The claim C8 as stated fails for a kernel that needs exactly 46 KiB: the requirement
  does not exceed the threshold, and the attribute is set.
\<close>

theorem shared_memory_attribute_counterexample:
  "getGlobalVar_uint32 ex_driver 2 ''smemSize'' = Some 47104
   \<and> \<not> (46 * 1024 :: 32 word) < 47104
   \<and> mDriverCalls (snd (loadKernel ex_driver 4 ex_list))
       = [ModuleLoadData 200 (Some 2), ModuleGetFunction 2 ''kernel_big'',
          GetGlobalVar 2 ''smemSize'', GetGlobalVar 2 ''kernelType'',
          FuncSetAttribute 13 47104]"
  by (simp add: ex_driver_values loadKernel_def Let_def ex_descriptor_4 ex_findOrLoadModule_200
      setMaxDynamicSharedMem_def logCall_def)

end
